theory Spec2Isabelle
  imports Complex_Main "HOL-Library.Word"
begin

section \<open>JavaScript values\<close>

text \<open>
  A JavaScript string is a sequence of UTF-16 code units, and \<open>length\<close> counts code
  units. String literals of the sources are ASCII and are written \<open>js ''...''\<close>.
\<close>

type_synonym code_unit = "16 word"
type_synonym jsstring = "code_unit list"

definition js :: "string \<Rightarrow> jsstring" where
  "js s = map (\<lambda>c. of_nat (of_char c)) s"

text \<open>
  The code units that \<open>String.prototype.trim\<close> strips and that \<open>\s\<close> matches:
  ECMAScript's WhiteSpace and LineTerminator.
\<close>

definition isWhiteSpace :: "code_unit \<Rightarrow> bool" where
  "isWhiteSpace c \<longleftrightarrow>
     c \<in> set [0x09, 0x0A, 0x0B, 0x0C, 0x0D, 0x20, 0xA0, 0x1680, 0x2028, 0x2029,
              0x202F, 0x205F, 0x3000, 0xFEFF]
     \<or> (0x2000 \<le> c \<and> c \<le> 0x200A)"

definition trim :: "jsstring \<Rightarrow> jsstring" where
  "trim s = rev (dropWhile isWhiteSpace (rev (dropWhile isWhiteSpace s)))"

text \<open>
  \<open>toUpperCase\<close> on the ASCII letters. The sources apply it to translation
  identifiers and to their \<open>', '\<close>-separated list only, which are ASCII.
\<close>

definition upper_unit :: "code_unit \<Rightarrow> code_unit" where
  "upper_unit c = (if 0x61 \<le> c \<and> c \<le> 0x7A then c - 0x20 else c)"

definition toUpperCase :: "jsstring \<Rightarrow> jsstring" where
  "toUpperCase s = map upper_unit s"

text \<open>\<open>Array.prototype.join\<close>.\<close>

fun join :: "jsstring \<Rightarrow> jsstring list \<Rightarrow> jsstring" where
  "join sep [] = []"
| "join sep [x] = x"
| "join sep (x # y # ys) = x @ sep @ join sep (y # ys)"

text \<open>
  Decimal digits of a natural number, and \<open>toString()\<close> of a number that is an
  integer. From the magnitude \<open>10^21\<close> on \<open>toString\<close> switches to exponential
  notation, which is not modelled.
\<close>

definition digit :: "nat \<Rightarrow> code_unit" where
  "digit d = of_nat (48 + d)"

function digits :: "nat \<Rightarrow> jsstring" where
  "digits n = (if n < 10 then [digit n] else digits (n div 10) @ [digit (n mod 10)])"
  by pat_completeness auto
termination
  by (relation "measure id") auto

declare digits.simps [simp del]

definition int_toString :: "int \<Rightarrow> jsstring" where
  "int_toString i = (if i < 0 then js ''-'' @ digits (nat (- i)) else digits (nat i))"

text \<open>
  \<open>Number.prototype.toFixed(0)\<close>, on the exact value of a number: the sign, then the
  integer nearest to the magnitude, the larger one on a tie. From the magnitude
  \<open>10^21\<close> on \<open>toFixed\<close> switches to exponential notation, which is not modelled.
\<close>

definition toFixed0 :: "real \<Rightarrow> jsstring" where
  "toFixed0 x = (if x < 0 then js ''-'' @ digits (nat \<lfloor>- x + 1 / 2\<rfloor>)
                 else digits (nat \<lfloor>x + 1 / 2\<rfloor>))"

text \<open>
  A number that the program computes with is an IEEE 754 double. A finite double is a
  mantissa of at most 53 bits times a power of two; \<open>NaN\<close> and the infinities are
  not modelled, and so neither is a product that overflows.
\<close>

datatype double = Double (mantissa: int) (exponent: int)

definition double_value :: "double \<Rightarrow> real" where
  "double_value d =
     (if 0 \<le> exponent d then of_int (mantissa d) * 2 ^ nat (exponent d)
      else of_int (mantissa d) / 2 ^ nat (- exponent d))"


function bit_length :: "nat \<Rightarrow> nat" where
  "bit_length n = (if n = 0 then 0 else Suc (bit_length (n div 2)))"
  by pat_completeness auto
termination
  by (relation "measure id") auto

declare bit_length.simps [simp del]

text \<open>\<open>m / 2^k\<close> rounded to the nearest integer, to the even one on a tie.\<close>

definition round_shift :: "int \<Rightarrow> nat \<Rightarrow> int" where
  "round_shift m k =
     (let d = 2 ^ k; q = m div d; r = m mod d
      in if 2 * r < d then q
         else if d < 2 * r then q + 1
         else if even q then q else q + 1)"

text \<open>
  The double nearest to \<open>m * 2^e\<close>: the mantissa is cut to 53 bits, and to fewer where
  the exponent would fall below that of the subnormal numbers.
\<close>

definition round_to_double :: "int \<Rightarrow> int \<Rightarrow> double" where
  "round_to_double m e =
     (let k = max (int (bit_length (nat \<bar>m\<bar>)) - 53) (- 1074 - e)
      in if k \<le> 0 then Double m e else Double (round_shift m (nat k)) (e + k))"

text \<open>The product of two doubles, as \<open>*\<close> computes it: the exact product, rounded.\<close>

definition fmul :: "double \<Rightarrow> double \<Rightarrow> double" where
  "fmul a b = round_to_double (mantissa a * mantissa b) (exponent a + exponent b)"

definition hundred :: double where
  "hundred = Double 100 0"


section \<open>Geography: confidence levels\<close>

datatype confidence_level = high | moderate | low

definition getConfidenceLevel :: "real \<Rightarrow> confidence_level" where
  "getConfidenceLevel score =
     (if score \<ge> 300 then high
      else if score \<ge> 80 then moderate
      else low)"


section \<open>The search bar\<close>

text \<open>
  Modelled from the spec: the type \<open>Translation\<close> of \<open>$lib/types/bible\<close> is not among
  the sources. Its values are the translation identifiers, the five that the
  component's \<open>TRANSLATIONS\<close> table lists under that type.
\<close>

datatype Translation = kjv | asv | bbe | ylt | webster

fun translation_id :: "Translation \<Rightarrow> jsstring" where
  "translation_id kjv = js ''kjv''"
| "translation_id asv = js ''asv''"
| "translation_id bbe = js ''bbe''"
| "translation_id ylt = js ''ylt''"
| "translation_id webster = js ''webster''"

text \<open>
  A search result. The fields \<open>chapter\<close> and \<open>text\<close> of the sources are written
  \<open>chapter'\<close> and \<open>text'\<close>, their names being keywords here.
\<close>

record SearchResult =
  verse_ref :: jsstring
  book :: jsstring
  chapter' :: int
  verse :: int
  translation :: Translation
  text' :: jsstring
  similarity :: double

text \<open>
  The component's variables and the stores it reads and writes. \<open>debounceTimer\<close> is
  true while a timeout set by \<open>handleInput\<close> is pending: neither fired nor cleared.
  The component subscribes \<open>query\<close> to the store \<open>searchQuery\<close>, so that setting the
  store sets the variable.
\<close>

record search_state =
  query :: jsstring
  debounceTimer :: bool
  searchQuery :: jsstring
  searchResults :: "SearchResult list"
  searchError :: "jsstring option"
  isSearching :: bool
  selectedTranslations :: "Translation list"
  top_k :: int

text \<open>The arguments of a call of the collaborator's \<open>searchBible\<close>.\<close>

record search_request =
  req_query :: jsstring
  req_translations :: "Translation list"
  req_top_k :: int

text \<open>
  What the awaited call comes back with: \<open>Inr\<close> the results, \<open>Inl\<close> the value thrown.
\<close>

type_synonym search_outcome = "jsstring + SearchResult list"

definition searchQuery_set :: "jsstring \<Rightarrow> search_state \<Rightarrow> search_state" where
  "searchQuery_set q s = s\<lparr>searchQuery := q, query := q\<rparr>"

text \<open>
  \<open>performSearch\<close> is asynchronous. \<open>performSearch_begin\<close> is its synchronous part, up
  to the \<open>await\<close>: it returns the state and the request it dispatched, \<open>None\<close> on the
  early return. \<open>performSearch_settle\<close> is the rest, run on the state of that later
  moment once the collaborator has answered: the \<open>try\<close> or the \<open>catch\<close> branch,
  then \<open>finally\<close>.
\<close>

definition performSearch_begin :: "search_state \<Rightarrow> search_state \<times> search_request option" where
  "performSearch_begin s =
     (if length (trim (query s)) < 3 then (s, None)
      else (s\<lparr>isSearching := True, searchError := None\<rparr>,
            Some \<lparr>req_query = query s,
                  req_translations = selectedTranslations s,
                  req_top_k = top_k s\<rparr>))"

definition performSearch_settle :: "search_outcome \<Rightarrow> search_state \<Rightarrow> search_state" where
  "performSearch_settle outcome s =
     (case outcome of
        Inr results \<Rightarrow> s\<lparr>searchResults := results\<rparr>
      | Inl error \<Rightarrow>
          s\<lparr>searchError := Some (js ''Search failed. Please check that Prism is running.'')\<rparr>)
     \<lparr>isSearching := False\<rparr>"

text \<open>A whole execution with nothing interleaved: the collaborator answers at once.\<close>

definition performSearch :: "(search_request \<Rightarrow> search_outcome) \<Rightarrow> search_state \<Rightarrow> search_state" where
  "performSearch searchBible s =
     (case performSearch_begin s of
        (s', None) \<Rightarrow> s'
      | (s', Some req) \<Rightarrow> performSearch_settle (searchBible req) s')"

definition handleInput :: "jsstring \<Rightarrow> search_state \<Rightarrow> search_state" where
  "handleInput v s =
     (let s1 = searchQuery_set v (s\<lparr>query := v\<rparr>);
          s2 = s1\<lparr>debounceTimer := False\<rparr>
      in if length (trim (query s2)) > 2 then s2\<lparr>debounceTimer := True\<rparr>
         else s2\<lparr>searchResults := []\<rparr>)"

definition handleSubmit :: "search_state \<Rightarrow> search_state \<times> search_request option" where
  "handleSubmit s =
     (if length (trim (query s)) > 2 then performSearch_begin s else (s, None))"

definition clearSearch :: "search_state \<Rightarrow> search_state" where
  "clearSearch s =
     (searchQuery_set [] (s\<lparr>query := []\<rparr>))\<lparr>searchResults := [], searchError := None\<rparr>"

text \<open>
  The pending timeout expires: its callback calls \<open>performSearch\<close>, which reads the
  variable \<open>query\<close> as it is at that moment.
\<close>

definition timerFires :: "search_state \<Rightarrow> search_state \<times> search_request option" where
  "timerFires s =
     (if debounceTimer s then performSearch_begin (s\<lparr>debounceTimer := False\<rparr>)
      else (s, None))"

text \<open>The events of the component, and the requests a sequence of them dispatches.\<close>

datatype event =
    Input jsstring
  | Submit
  | Clear
  | TimerFires
  | Settles search_outcome

fun step :: "event \<Rightarrow> search_state \<Rightarrow> search_state \<times> search_request option" where
  "step (Input v) s = (handleInput v s, None)"
| "step Submit s = handleSubmit s"
| "step Clear s = (clearSearch s, None)"
| "step TimerFires s = timerFires s"
| "step (Settles outcome) s = (performSearch_settle outcome s, None)"

fun run :: "event list \<Rightarrow> search_state \<Rightarrow> search_state \<times> search_request list" where
  "run [] s = (s, [])"
| "run (e # es) s =
     (case step e s of (s', r) \<Rightarrow>
        (case run es s' of (s'', rs) \<Rightarrow>
           (s'', (case r of None \<Rightarrow> [] | Some q \<Rightarrow> [q]) @ rs)))"

text \<open>
  Modelled from the spec: the stores of \<open>$lib/stores/search\<close> are not among the
  sources, and so their first values are not. In the state \<open>initial\<close> the component
  is at rest, with an empty query, no results, no error and no search in progress; the
  selected translations and the result limit are those of the specification's scenario.
\<close>

definition initial :: search_state where
  "initial = \<lparr>query = [], debounceTimer = False, searchQuery = [], searchResults = [],
              searchError = None, isSearching = False, selectedTranslations = [kjv],
              top_k = 10\<rparr>"

fun is_Input :: "event \<Rightarrow> bool" where
  "is_Input (Input v) = True"
| "is_Input e = False"

text \<open>A collaborator that finds nothing, and one that cannot be reached.\<close>

definition searchBible_none :: "search_request \<Rightarrow> search_outcome" where
  "searchBible_none req = Inr []"

definition searchBible_fails :: "search_request \<Rightarrow> search_outcome" where
  "searchBible_fails req = Inl (js ''Failed to fetch'')"


section \<open>Original-language lookups\<close>

text \<open>
  The module keeps one cache, \<open>verseCache\<close>: a map from a key to a payload and the
  time it was stored. Times are milliseconds, as \<open>Date.now()\<close> reads them.
\<close>

record 'a cache_entry =
  data :: 'a
  timestamp :: int

definition USE_MOCK_DATA :: bool where
  "USE_MOCK_DATA = True"

definition CACHE_TTL_sword :: int where
  "CACHE_TTL_sword = 30 * 60 * 1000"

datatype language = hebrew | greek

text \<open>
  The fields \<open>book\<close>, \<open>chapter\<close>, \<open>verse\<close> and \<open>translation\<close> of a verse text and
  of an interlinear verse carry a prefix here, a search result having fields of the
  same names.
\<close>

record VerseText =
  original_text :: jsstring
  vt_language :: language
  strongs_numbers :: "jsstring list option"
  vt_book :: jsstring
  vt_chapter :: int
  vt_verse :: int
  vt_translation :: "jsstring option"

record InterlinearWord =
  original :: jsstring
  transliteration :: jsstring
  gloss :: jsstring
  strongs :: "jsstring option"
  morphology :: "jsstring option"

record InterlinearVerse =
  words :: "InterlinearWord list"
  iv_book :: jsstring
  iv_chapter :: int
  iv_verse :: int
  iv_language :: language

definition OT_BOOKS :: "jsstring list" where
  "OT_BOOKS =
    [js ''Genesis'', js ''Exodus'', js ''Leviticus'', js ''Numbers'', js ''Deuteronomy'',
     js ''Joshua'', js ''Judges'', js ''Ruth'', js ''1 Samuel'', js ''2 Samuel'',
     js ''1 Kings'', js ''2 Kings'', js ''1 Chronicles'', js ''2 Chronicles'', js ''Ezra'',
     js ''Nehemiah'', js ''Esther'', js ''Job'', js ''Psalms'', js ''Proverbs'',
     js ''Ecclesiastes'', js ''Song of Songs'', js ''Isaiah'', js ''Jeremiah'',
     js ''Lamentations'', js ''Ezekiel'', js ''Daniel'', js ''Hosea'', js ''Joel'',
     js ''Amos'', js ''Obadiah'', js ''Jonah'', js ''Micah'', js ''Nahum'', js ''Habakkuk'',
     js ''Zephaniah'', js ''Haggai'', js ''Zechariah'', js ''Malachi'']"

definition NT_BOOKS :: "jsstring list" where
  "NT_BOOKS =
    [js ''Matthew'', js ''Mark'', js ''Luke'', js ''John'', js ''Acts'', js ''Romans'',
     js ''1 Corinthians'', js ''2 Corinthians'', js ''Galatians'', js ''Ephesians'',
     js ''Philippians'', js ''Colossians'', js ''1 Thessalonians'', js ''2 Thessalonians'',
     js ''1 Timothy'', js ''2 Timothy'', js ''Titus'', js ''Philemon'', js ''Hebrews'',
     js ''James'', js ''1 Peter'', js ''2 Peter'', js ''1 John'', js ''2 John'',
     js ''3 John'', js ''Jude'', js ''Revelation'']"

datatype testament = OT | NT

definition getTestament :: "jsstring \<Rightarrow> testament option" where
  "getTestament b =
     (if b \<in> set OT_BOOKS then Some OT
      else if b \<in> set NT_BOOKS then Some NT
      else None)"

definition getLanguage :: "jsstring \<Rightarrow> language option" where
  "getLanguage b =
     (let t = getTestament b
      in if t = Some OT then Some hebrew
         else if t = Some NT then Some greek
         else None)"

text \<open>The mock provider: its sample tables, as UTF-16 code units, and its three lookups.\<close>

definition hebrew_samples :: "(jsstring \<times> jsstring) list" where
  "hebrew_samples =
    [(js ''Genesis:1:1'',
      [0x05D1, 0x05B0, 0x05BC, 0x05E8, 0x05B5, 0x05D0, 0x05E9, 0x05B4, 0x05C1, 0x05D9,
       0x05EA, 0x0020, 0x05D1, 0x05B8, 0x05BC, 0x05E8, 0x05B8, 0x05D0, 0x0020, 0x05D0,
       0x05B1, 0x05DC, 0x05B9, 0x05D4, 0x05B4, 0x05D9, 0x05DD, 0x0020, 0x05D0, 0x05B5,
       0x05EA, 0x0020, 0x05D4, 0x05B7, 0x05E9, 0x05B8, 0x05BC, 0x05C1, 0x05DE, 0x05B7,
       0x05D9, 0x05B4, 0x05DD, 0x0020, 0x05D5, 0x05B0, 0x05D0, 0x05B5, 0x05EA, 0x0020,
       0x05D4, 0x05B8, 0x05D0, 0x05B8, 0x05E8, 0x05B6, 0x05E5]),
     (js ''Genesis:1:2'',
      [0x05D5, 0x05B0, 0x05D4, 0x05B8, 0x05D0, 0x05B8, 0x05E8, 0x05B6, 0x05E5, 0x0020,
       0x05D4, 0x05B8, 0x05D9, 0x05B0, 0x05EA, 0x05B8, 0x05D4, 0x0020, 0x05EA, 0x05B9,
       0x05D4, 0x05D5, 0x05BC, 0x0020, 0x05D5, 0x05B8, 0x05D1, 0x05B9, 0x05D4, 0x05D5,
       0x05BC, 0x0020, 0x05D5, 0x05B0, 0x05D7, 0x05B9, 0x05E9, 0x05B6, 0x05C1, 0x05DA,
       0x05B0, 0x0020, 0x05E2, 0x05B7, 0x05DC, 0x05BE, 0x05E4, 0x05B0, 0x05BC, 0x05E0,
       0x05B5, 0x05D9, 0x0020, 0x05EA, 0x05B0, 0x05D4, 0x05D5, 0x05B9, 0x05DD, 0x0020,
       0x05D5, 0x05B0, 0x05E8, 0x05D5, 0x05BC, 0x05D7, 0x05B7, 0x0020, 0x05D0, 0x05B1,
       0x05DC, 0x05B9, 0x05D4, 0x05B4, 0x05D9, 0x05DD, 0x0020, 0x05DE, 0x05B0, 0x05E8,
       0x05B7, 0x05D7, 0x05B6, 0x05E4, 0x05B6, 0x05EA, 0x0020, 0x05E2, 0x05B7, 0x05DC,
       0x05BE, 0x05E4, 0x05B0, 0x05BC, 0x05E0, 0x05B5, 0x05D9, 0x0020, 0x05D4, 0x05B7,
       0x05DE, 0x05B8, 0x05BC, 0x05D9, 0x05B4, 0x05DD]),
     (js ''Psalms:23:1'',
      [0x05D9, 0x05B0, 0x05D4, 0x05D5, 0x05B8, 0x05D4, 0x0020, 0x05E8, 0x05B9, 0x05E2,
       0x05B4, 0x05D9, 0x0020, 0x05DC, 0x05B9, 0x05D0, 0x0020, 0x05D0, 0x05B6, 0x05D7,
       0x05B0, 0x05E1, 0x05B8, 0x05E8]),
     (js ''Psalms:23:2'',
      [0x05D1, 0x05B4, 0x05BC, 0x05E0, 0x05B0, 0x05D0, 0x05D5, 0x05B9, 0x05EA, 0x0020,
       0x05D3, 0x05B6, 0x05BC, 0x05E9, 0x05B6, 0x05C1, 0x05D0, 0x0020, 0x05D9, 0x05B7,
       0x05E8, 0x05B0, 0x05D1, 0x05B4, 0x05BC, 0x05D9, 0x05E6, 0x05B5, 0x05E0, 0x05B4,
       0x05D9, 0x0020, 0x05E2, 0x05B7, 0x05DC, 0x05BE, 0x05DE, 0x05B5, 0x05D9, 0x0020,
       0x05DE, 0x05B0, 0x05E0, 0x05BB, 0x05D7, 0x05D5, 0x05B9, 0x05EA, 0x0020, 0x05D9,
       0x05B0, 0x05E0, 0x05B7, 0x05D4, 0x05B2, 0x05DC, 0x05B5, 0x05E0, 0x05B4, 0x05D9])]"

definition hebrew_default :: jsstring where
  "hebrew_default = [0x05D1, 0x05B0, 0x05BC, 0x05E8, 0x05B5, 0x05D0, 0x05E9, 0x05B4, 0x05C1, 0x05D9, 0x05EA,
    0x0020, 0x05D1, 0x05B8, 0x05BC, 0x05E8, 0x05B8, 0x05D0, 0x0020, 0x05D0, 0x05B1, 0x05DC,
    0x05B9, 0x05D4, 0x05B4, 0x05D9, 0x05DD]"

definition greek_samples :: "(jsstring \<times> jsstring) list" where
  "greek_samples =
    [(js ''John:1:1'',
      [0x1F18, 0x03BD, 0x0020, 0x1F00, 0x03C1, 0x03C7, 0x1FC7, 0x0020, 0x1F26, 0x03BD,
       0x0020, 0x1F41, 0x0020, 0x03BB, 0x03CC, 0x03B3, 0x03BF, 0x03C2, 0x0020, 0x03BA,
       0x03B1, 0x1F76, 0x0020, 0x1F41, 0x0020, 0x03BB, 0x03CC, 0x03B3, 0x03BF, 0x03C2,
       0x0020, 0x1F26, 0x03BD, 0x0020, 0x03C0, 0x03C1, 0x1F78, 0x03C2, 0x0020, 0x03C4,
       0x1F78, 0x03BD, 0x0020, 0x03B8, 0x03B5, 0x03CC, 0x03BD, 0x0020, 0x03BA, 0x03B1,
       0x1F76, 0x0020, 0x03B8, 0x03B5, 0x1F78, 0x03C2, 0x0020, 0x1F26, 0x03BD, 0x0020,
       0x1F41, 0x0020, 0x03BB, 0x03CC, 0x03B3, 0x03BF, 0x03C2]),
     (js ''John:1:2'',
      [0x03BF, 0x1F57, 0x03C4, 0x03BF, 0x03C2, 0x0020, 0x1F26, 0x03BD, 0x0020, 0x1F10,
       0x03BD, 0x0020, 0x1F00, 0x03C1, 0x03C7, 0x1FC7, 0x0020, 0x03C0, 0x03C1, 0x1F78,
       0x03C2, 0x0020, 0x03C4, 0x1F78, 0x03BD, 0x0020, 0x03B8, 0x03B5, 0x03CC, 0x03BD]),
     (js ''John:3:16'',
      [0x039F, 0x1F55, 0x03C4, 0x03C9, 0x03C2, 0x0020, 0x03B3, 0x1F70, 0x03C1, 0x0020,
       0x1F20, 0x03B3, 0x03AC, 0x03C0, 0x03B7, 0x03C3, 0x03B5, 0x03BD, 0x0020, 0x1F41,
       0x0020, 0x03B8, 0x03B5, 0x1F78, 0x03C2, 0x0020, 0x03C4, 0x1F78, 0x03BD, 0x0020,
       0x03BA, 0x03CC, 0x03C3, 0x03BC, 0x03BF, 0x03BD, 0x0020, 0x1F65, 0x03C3, 0x03C4,
       0x03B5, 0x0020, 0x03C4, 0x1F78, 0x03BD, 0x0020, 0x03C5, 0x1F31, 0x1F78, 0x03BD,
       0x0020, 0x03C4, 0x1F78, 0x03BD, 0x0020, 0x03BC, 0x03BF, 0x03BD, 0x03BF, 0x03B3,
       0x03B5, 0x03BD, 0x1FC6, 0x0020, 0x1F14, 0x03B4, 0x03C9, 0x03BA, 0x03B5, 0x03BD]),
     (js ''Matthew:1:1'',
      [0x0392, 0x03AF, 0x03B2, 0x03BB, 0x03BF, 0x03C2, 0x0020, 0x03B3, 0x03B5, 0x03BD,
       0x03AD, 0x03C3, 0x03B5, 0x03C9, 0x03C2, 0x0020, 0x1F38, 0x03B7, 0x03C3, 0x03BF,
       0x1FE6, 0x0020, 0x03A7, 0x03C1, 0x03B9, 0x03C3, 0x03C4, 0x03BF, 0x1FE6, 0x0020,
       0x03C5, 0x1F31, 0x03BF, 0x1FE6, 0x0020, 0x0394, 0x03B1, 0x03C5, 0x1F76, 0x03B4,
       0x0020, 0x03C5, 0x1F31, 0x03BF, 0x1FE6, 0x0020, 0x1F08, 0x03B2, 0x03C1, 0x03B1,
       0x03AC, 0x03BC])]"

definition greek_default :: jsstring where
  "greek_default = [0x1F18, 0x03BD, 0x0020, 0x1F00, 0x03C1, 0x03C7, 0x1FC7, 0x0020, 0x1F26, 0x03BD, 0x0020,
    0x1F41, 0x0020, 0x03BB, 0x03CC, 0x03B3, 0x03BF, 0x03C2]"

definition verse_key :: "jsstring \<Rightarrow> int \<Rightarrow> int \<Rightarrow> jsstring" where
  "verse_key b c v = b @ js '':'' @ int_toString c @ js '':'' @ int_toString v"

definition getMockHebrewText :: "jsstring \<Rightarrow> int \<Rightarrow> int \<Rightarrow> VerseText" where
  "getMockHebrewText b c v =
     (let key = verse_key b c v;
          sample = (case map_of hebrew_samples key of
                      Some t \<Rightarrow> if t \<noteq> [] then t else hebrew_default
                    | None \<Rightarrow> hebrew_default)
      in \<lparr>original_text = sample,
          vt_language = hebrew,
          strongs_numbers = Some [js ''H7225'', js ''H1254'', js ''H430''],
          vt_book = b, vt_chapter = c, vt_verse = v,
          vt_translation = Some (js ''In the beginning God created...'')\<rparr>)"

definition getMockGreekText :: "jsstring \<Rightarrow> int \<Rightarrow> int \<Rightarrow> VerseText" where
  "getMockGreekText b c v =
     (let key = verse_key b c v;
          sample = (case map_of greek_samples key of
                      Some t \<Rightarrow> if t \<noteq> [] then t else greek_default
                    | None \<Rightarrow> greek_default)
      in \<lparr>original_text = sample,
          vt_language = greek,
          strongs_numbers = Some [js ''G1722'', js ''G746'', js ''G1510'', js ''G3056''],
          vt_book = b, vt_chapter = c, vt_verse = v,
          vt_translation = Some (js ''In the beginning was the Word...'')\<rparr>)"

definition hebrew_words :: "InterlinearWord list" where
  "hebrew_words =
    [\<lparr>original = [0x05D1, 0x05B0, 0x05BC, 0x05E8, 0x05B5, 0x05D0, 0x05E9, 0x05B4, 0x05C1,
                 0x05D9, 0x05EA],
      transliteration = [0x0062, 0x0259, 0x0072, 0x0113, 0x0161, 0x00EE, 0x1E6F],
      gloss = js ''in-beginning'', strongs = Some (js ''H7225''), morphology = None\<rparr>,
     \<lparr>original = [0x05D1, 0x05B8, 0x05BC, 0x05E8, 0x05B8, 0x05D0],
      transliteration = [0x0062, 0x0101, 0x0072, 0x0101],
      gloss = js ''he-created'', strongs = Some (js ''H1254''), morphology = None\<rparr>,
     \<lparr>original = [0x05D0, 0x05B1, 0x05DC, 0x05B9, 0x05D4, 0x05B4, 0x05D9, 0x05DD],
      transliteration = [0x02BE, 0x0115, 0x006C, 0x014D, 0x0068, 0x00EE, 0x006D],
      gloss = js ''God'', strongs = Some (js ''H430''), morphology = None\<rparr>,
     \<lparr>original = [0x05D0, 0x05B5, 0x05EA],
      transliteration = [0x02BE, 0x0113, 0x1E6F],
      gloss = js ''(obj)'', strongs = Some (js ''H853''), morphology = None\<rparr>,
     \<lparr>original = [0x05D4, 0x05B7, 0x05E9, 0x05B8, 0x05BC, 0x05C1, 0x05DE, 0x05B7, 0x05D9,
                 0x05B4, 0x05DD],
      transliteration = [0x0068, 0x0061, 0x0161, 0x002D, 0x0161, 0x0101, 0x006D, 0x0061,
                        0x0079, 0x0069, 0x006D],
      gloss = js ''the-heavens'', strongs = Some (js ''H8064''), morphology = None\<rparr>,
     \<lparr>original = [0x05D5, 0x05B0, 0x05D0, 0x05B5, 0x05EA],
      transliteration = [0x0077, 0x0259, 0x002D, 0x02BE, 0x0113, 0x1E6F],
      gloss = js ''and-(obj)'', strongs = Some (js ''H853''), morphology = None\<rparr>,
     \<lparr>original = [0x05D4, 0x05B8, 0x05D0, 0x05B8, 0x05E8, 0x05B6, 0x05E5],
      transliteration = [0x0068, 0x0101, 0x002D, 0x02BE, 0x0101, 0x0072, 0x0065, 0x1E63],
      gloss = js ''the-earth'', strongs = Some (js ''H776''), morphology = None\<rparr>]"

definition greek_words :: "InterlinearWord list" where
  "greek_words =
    [\<lparr>original = [0x1F18, 0x03BD],
      transliteration = js ''En'',
      gloss = js ''In'', strongs = Some (js ''G1722''), morphology = None\<rparr>,
     \<lparr>original = [0x1F00, 0x03C1, 0x03C7, 0x1FC7],
      transliteration = [0x0061, 0x0072, 0x0063, 0x0068, 0x0113],
      gloss = js ''beginning'', strongs = Some (js ''G746''), morphology = None\<rparr>,
     \<lparr>original = [0x1F26, 0x03BD],
      transliteration = [0x0113, 0x006E],
      gloss = js ''was'', strongs = Some (js ''G1510''), morphology = None\<rparr>,
     \<lparr>original = [0x1F41],
      transliteration = js ''ho'',
      gloss = js ''the'', strongs = Some (js ''G3588''), morphology = None\<rparr>,
     \<lparr>original = [0x03BB, 0x03CC, 0x03B3, 0x03BF, 0x03C2],
      transliteration = js ''logos'',
      gloss = js ''Word'', strongs = Some (js ''G3056''), morphology = None\<rparr>,
     \<lparr>original = [0x03BA, 0x03B1, 0x1F76],
      transliteration = js ''kai'',
      gloss = js ''and'', strongs = Some (js ''G2532''), morphology = None\<rparr>,
     \<lparr>original = [0x1F41],
      transliteration = js ''ho'',
      gloss = js ''the'', strongs = Some (js ''G3588''), morphology = None\<rparr>,
     \<lparr>original = [0x03BB, 0x03CC, 0x03B3, 0x03BF, 0x03C2],
      transliteration = js ''logos'',
      gloss = js ''Word'', strongs = Some (js ''G3056''), morphology = None\<rparr>,
     \<lparr>original = [0x1F26, 0x03BD],
      transliteration = [0x0113, 0x006E],
      gloss = js ''was'', strongs = Some (js ''G1510''), morphology = None\<rparr>,
     \<lparr>original = [0x03C0, 0x03C1, 0x1F78, 0x03C2],
      transliteration = js ''pros'',
      gloss = js ''with'', strongs = Some (js ''G4314''), morphology = None\<rparr>,
     \<lparr>original = [0x03C4, 0x1F78, 0x03BD],
      transliteration = js ''ton'',
      gloss = js ''the'', strongs = Some (js ''G3588''), morphology = None\<rparr>,
     \<lparr>original = [0x03B8, 0x03B5, 0x03CC, 0x03BD],
      transliteration = js ''theon'',
      gloss = js ''God'', strongs = Some (js ''G2316''), morphology = None\<rparr>]"

definition getMockInterlinear :: "jsstring \<Rightarrow> int \<Rightarrow> int \<Rightarrow> InterlinearVerse" where
  "getMockInterlinear b c v =
     (let t = getTestament b
      in if t = Some OT
         then \<lparr>words = hebrew_words, iv_book = b, iv_chapter = c, iv_verse = v,
               iv_language = hebrew\<rparr>
         else \<lparr>words = greek_words, iv_book = b, iv_chapter = c, iv_verse = v,
               iv_language = greek\<rparr>)"

text \<open>
  A lookup reaches a provider of verse data either through the mock functions or
  through \<open>fetch\<close>; either is recorded, so that a lookup served from the cache shows as
  one with no provider call. A \<open>fetch\<close> is rejected, or answers with a status that is
  not ok, or answers with a body.
\<close>

datatype provider_call =
    MockHebrewText jsstring int int
  | MockGreekText jsstring int int
  | MockInterlinear jsstring int int
  | Fetch jsstring jsstring int int

datatype 'a fetched = Rejected | NotOk | Json 'a

type_synonym verse_cache = "jsstring \<rightharpoonup> VerseText cache_entry"

text \<open>
  The two uses the module makes of its cache: the read with the expiry test, and the
  write with the time of writing.
\<close>

definition verseCache_get :: "verse_cache \<Rightarrow> int \<Rightarrow> jsstring \<Rightarrow> VerseText option" where
  "verseCache_get cache now cacheKey =
     (case cache cacheKey of
        Some cached \<Rightarrow> if now - timestamp cached < CACHE_TTL_sword then Some (data cached) else None
      | None \<Rightarrow> None)"

definition verseCache_set :: "verse_cache \<Rightarrow> int \<Rightarrow> jsstring \<Rightarrow> VerseText \<Rightarrow> verse_cache" where
  "verseCache_set cache now cacheKey d = cache(cacheKey \<mapsto> \<lparr>data = d, timestamp = now\<rparr>)"

text \<open>
  \<open>getHebrewText fetch now now' b c v cache\<close>: \<open>now\<close> is the clock at the cache test,
  \<open>now'\<close> the clock when the payload is stored. The result is the verse text or null,
  the cache afterwards, and the provider calls made.
\<close>

definition getHebrewText ::
  "(jsstring \<Rightarrow> jsstring \<Rightarrow> int \<Rightarrow> int \<Rightarrow> VerseText fetched) \<Rightarrow> int \<Rightarrow> int \<Rightarrow>
   jsstring \<Rightarrow> int \<Rightarrow> int \<Rightarrow> verse_cache \<Rightarrow>
   VerseText option \<times> verse_cache \<times> provider_call list" where
  "getHebrewText fetch now now' b c v cache =
     (let cacheKey = js ''hebrew:'' @ verse_key b c v
      in case verseCache_get cache now cacheKey of
           Some d \<Rightarrow> (Some d, cache, [])
         | None \<Rightarrow>
             if USE_MOCK_DATA
             then (let d = getMockHebrewText b c v
                   in (Some d, verseCache_set cache now' cacheKey d, [MockHebrewText b c v]))
             else (case fetch (js ''/api/sword/hebrew'') b c v of
                     Rejected \<Rightarrow> (None, cache, [Fetch (js ''/api/sword/hebrew'') b c v])
                   | NotOk \<Rightarrow> (None, cache, [Fetch (js ''/api/sword/hebrew'') b c v])
                   | Json d \<Rightarrow>
                       (Some d, verseCache_set cache now' cacheKey d,
                        [Fetch (js ''/api/sword/hebrew'') b c v])))"

text \<open>
  \<open>getGreekText\<close> and \<open>getInterlinear\<close> do not mention \<open>verseCache\<close>: the cache is
  passed through as it is, so that the three lookups have one shape.
\<close>

definition getGreekText ::
  "(jsstring \<Rightarrow> jsstring \<Rightarrow> int \<Rightarrow> int \<Rightarrow> VerseText fetched) \<Rightarrow> int \<Rightarrow> int \<Rightarrow>
   jsstring \<Rightarrow> int \<Rightarrow> int \<Rightarrow> verse_cache \<Rightarrow>
   VerseText option \<times> verse_cache \<times> provider_call list" where
  "getGreekText fetch now now' b c v cache =
     (if USE_MOCK_DATA
      then (Some (getMockGreekText b c v), cache, [MockGreekText b c v])
      else (case fetch (js ''/api/sword/greek'') b c v of
              Rejected \<Rightarrow> (None, cache, [Fetch (js ''/api/sword/greek'') b c v])
            | NotOk \<Rightarrow> (None, cache, [Fetch (js ''/api/sword/greek'') b c v])
            | Json d \<Rightarrow> (Some d, cache, [Fetch (js ''/api/sword/greek'') b c v])))"

definition getInterlinear ::
  "(jsstring \<Rightarrow> jsstring \<Rightarrow> int \<Rightarrow> int \<Rightarrow> InterlinearVerse fetched) \<Rightarrow> int \<Rightarrow> int \<Rightarrow>
   jsstring \<Rightarrow> int \<Rightarrow> int \<Rightarrow> verse_cache \<Rightarrow>
   InterlinearVerse option \<times> verse_cache \<times> provider_call list" where
  "getInterlinear fetch now now' b c v cache =
     (if USE_MOCK_DATA
      then (Some (getMockInterlinear b c v), cache, [MockInterlinear b c v])
      else (case fetch (js ''/api/sword/interlinear'') b c v of
              Rejected \<Rightarrow> (None, cache, [Fetch (js ''/api/sword/interlinear'') b c v])
            | NotOk \<Rightarrow> (None, cache, [Fetch (js ''/api/sword/interlinear'') b c v])
            | Json d \<Rightarrow> (Some d, cache, [Fetch (js ''/api/sword/interlinear'') b c v])))"

text \<open>A backend that is never reached while the mock data is in use.\<close>

definition fetch_unreachable :: "jsstring \<Rightarrow> jsstring \<Rightarrow> int \<Rightarrow> int \<Rightarrow> 'a fetched" where
  "fetch_unreachable url b c v = Rejected"


section \<open>Geography: fetching the places\<close>

text \<open>A string that may be missing counts as given when it is there and not empty.\<close>

definition truthy :: "jsstring option \<Rightarrow> bool" where
  "truthy v = (case v of None \<Rightarrow> False | Some s \<Rightarrow> s \<noteq> [])"

text \<open>\<open>a || d\<close> for a string \<open>a\<close> that may be missing and a default \<open>d\<close>.\<close>

definition string_or :: "jsstring option \<Rightarrow> jsstring \<Rightarrow> jsstring" where
  "string_or a d = (case a of None \<Rightarrow> d | Some s \<Rightarrow> if s \<noteq> [] then s else d)"

text \<open>
  \<open>PRISM_API_URL\<close> is the environment's setting when it is set to a non-empty string,
  and the local address otherwise.
\<close>

definition PRISM_API_URL :: "jsstring option \<Rightarrow> jsstring" where
  "PRISM_API_URL env = string_or env (js ''http://localhost:8100'')"

definition CACHE_TTL_geography :: int where
  "CACHE_TTL_geography = 10 * 60 * 1000"

record BiblicalPlace =
  place_id :: "jsstring option"
  document_id :: "jsstring option"
  name :: jsstring
  latitude :: real
  longitude :: real
  place_type :: jsstring
  confidence_score :: real
  confidence_level :: confidence_level
  verse_references :: "jsstring list"
  alternate_names :: "jsstring list"
  content :: jsstring

record PlacesResponse =
  places :: "BiblicalPlace list"
  total :: int

record SearchPlacesParams =
  p_query :: "jsstring option"
  placeType :: "jsstring option"
  confidenceLevel :: "confidence_level option"
  limit :: "int option"
  offset :: "int option"

text \<open>
  A document of the collaborator, as far as the module reads it. A field that may be
  missing is an option. A numeric field holds what \<open>parseFloat\<close> makes of it, \<open>None\<close>
  for \<open>NaN\<close>. A list field is an array, a string of comma-separated items, or missing.
\<close>

datatype items = ItemArray "jsstring list" | ItemString jsstring | ItemMissing

record metadata =
  md_domain :: "jsstring option"
  md_name :: "jsstring option"
  md_latitude :: "real option"
  md_longitude :: "real option"
  md_place_type :: "jsstring option"
  md_confidence :: "real option"
  md_verse_references :: items
  md_alternate_names :: items

record document =
  doc_id :: "jsstring option"
  doc_document_id :: "jsstring option"
  doc_content :: "jsstring option"
  doc_metadata :: "metadata option"

definition empty_metadata :: metadata where
  "empty_metadata =
     \<lparr>md_domain = None, md_name = None, md_latitude = None, md_longitude = None,
      md_place_type = None, md_confidence = None, md_verse_references = ItemMissing,
      md_alternate_names = ItemMissing\<rparr>"

text \<open>\<open>a || b\<close> on two strings that may be missing, and \<open>parseFloat(x) || 0\<close>.\<close>

definition or_else :: "jsstring option \<Rightarrow> jsstring option \<Rightarrow> jsstring option" where
  "or_else a b = (if truthy a then a else b)"

definition number_or_zero :: "real option \<Rightarrow> real" where
  "number_or_zero x = (case x of None \<Rightarrow> 0 | Some r \<Rightarrow> r)"

text \<open>\<open>s.split(c)\<close> for a single code unit \<open>c\<close>.\<close>

fun split :: "code_unit \<Rightarrow> jsstring \<Rightarrow> jsstring list" where
  "split c [] = [[]]"
| "split c (x # xs) =
     (if x = c then [] # split c xs
      else (case split c xs of
              [] \<Rightarrow> [[x]]
            | y # ys \<Rightarrow> (x # y) # ys))"

definition split_items :: "items \<Rightarrow> jsstring list" where
  "split_items v =
     (case v of
        ItemArray xs \<Rightarrow> xs
      | ItemString s \<Rightarrow> filter (\<lambda>x. x \<noteq> []) (split 0x2C s)
      | ItemMissing \<Rightarrow> filter (\<lambda>x. x \<noteq> []) (split 0x2C []))"

text \<open>
  \<open>extractNameFromContent\<close>: the first line up to its first colon, trimmed; the first
  50 code units of the first line when it is empty or begins with a colon.
\<close>

definition extractNameFromContent :: "jsstring option \<Rightarrow> jsstring" where
  "extractNameFromContent c =
     (case c of
        None \<Rightarrow> js ''Unknown Place''
      | Some str \<Rightarrow>
          if str = [] then js ''Unknown Place''
          else (let firstLine = (case split 0x0A str of [] \<Rightarrow> [] | l # ls \<Rightarrow> l);
                    match = takeWhile (\<lambda>x. x \<noteq> 0x3A) firstLine
                in if match \<noteq> [] then trim match else take 50 firstLine))"

definition transformDocumentToPlace :: "document \<Rightarrow> BiblicalPlace" where
  "transformDocumentToPlace doc =
     (let metadata = (case doc_metadata doc of None \<Rightarrow> empty_metadata | Some m \<Rightarrow> m)
      in \<lparr>place_id = or_else (doc_id doc) (doc_document_id doc),
          document_id = or_else (doc_document_id doc) (doc_id doc),
          name = string_or (md_name metadata) (extractNameFromContent (doc_content doc)),
          latitude = number_or_zero (md_latitude metadata),
          longitude = number_or_zero (md_longitude metadata),
          place_type = string_or (md_place_type metadata) (js ''unknown''),
          confidence_score = number_or_zero (md_confidence metadata),
          confidence_level = getConfidenceLevel (number_or_zero (md_confidence metadata)),
          verse_references = split_items (md_verse_references metadata),
          alternate_names = split_items (md_alternate_names metadata),
          content = string_or (doc_content doc) []\<rparr>)"

text \<open>\<open>Array.prototype.slice(start, end)\<close>, a negative index counting from the end.\<close>

definition slice :: "'a list \<Rightarrow> int \<Rightarrow> int \<Rightarrow> 'a list" where
  "slice xs start end' =
     (let len = int (length xs);
          k = (if start < 0 then max (len + start) 0 else min start len);
          final = (if end' < 0 then max (len + end') 0 else min end' len)
      in take (nat (final - k)) (drop (nat k) xs))"

text \<open>
  The request that \<open>fetch\<close> is called with (its \<open>method\<close> is written \<open>method'\<close>),
  and what comes back: the call is rejected, or it answers with a status and a body,
  and the body is JSON or fails to parse. The body's \<open>documents\<close> and \<open>total\<close> may be missing. What is thrown is an
  \<open>Error\<close> with a message, or some other value.
\<close>

record http_request =
  method' :: jsstring
  url :: jsstring
  headers :: "(jsstring \<times> jsstring) list"

record documents_body =
  documents :: "document list option"
  body_total :: "int option"

datatype thrown = Error jsstring | TypeError | OtherValue

datatype http_response =
    FetchRejected thrown
  | Response int "thrown + documents_body"

text \<open>The filter object that \<open>fetchBiblicalPlaces\<close> builds from its parameters.\<close>

datatype filter_value = Eq_string jsstring | Eq_level confidence_level

definition build_filters ::
  "jsstring option \<Rightarrow> confidence_level option \<Rightarrow> (jsstring \<times> filter_value) list" where
  "build_filters pt cl =
     [(js ''metadata.domain'', Eq_string (js ''geography/biblical''))]
     @ (case pt of
          None \<Rightarrow> []
        | Some t \<Rightarrow> if t \<noteq> [] then [(js ''metadata.place_type'', Eq_string t)] else [])
     @ (case cl of None \<Rightarrow> [] | Some l \<Rightarrow> [(js ''metadata.confidence_level'', Eq_level l)])"

type_synonym places_cache = "BiblicalPlace list cache_entry option"

text \<open>
  The read of \<open>placesCache\<close> with its expiry test, and the write. Both stand under the
  test that neither filter is given.
\<close>

definition placesCache_get :: "places_cache \<Rightarrow> int \<Rightarrow> BiblicalPlace list option" where
  "placesCache_get placesCache now =
     (case placesCache of
        Some c \<Rightarrow> if now - timestamp c < CACHE_TTL_geography then Some (data c) else None
      | None \<Rightarrow> None)"

definition placesCache_set :: "int \<Rightarrow> BiblicalPlace list \<Rightarrow> places_cache" where
  "placesCache_set now allPlaces = Some \<lparr>data = allPlaces, timestamp = now\<rparr>"

definition no_filters :: "SearchPlacesParams \<Rightarrow> bool" where
  "no_filters params \<longleftrightarrow> \<not> truthy (placeType params) \<and> confidenceLevel params = None"

definition documents_request :: "jsstring option \<Rightarrow> http_request" where
  "documents_request env =
     \<lparr>method' = js ''GET'',
      url = PRISM_API_URL env @ js ''/api/v1/documents'',
      headers = [(js ''Content-Type'', js ''application/json'')]\<rparr>"

definition status_error :: "int \<Rightarrow> thrown" where
  "status_error status =
     (if status = 404
      then Error (js ''Geography data not found. Please ensure biblical places have been imported into Prism.'')
      else if status = 503
      then Error (js ''Prism API is unavailable. Please check that the service is running.'')
      else Error (js ''Failed to load geography data (HTTP '' @ int_toString status
                  @ js ''). Check API logs for details.''))"

text \<open>The test \<open>doc.metadata?.domain === 'geography/biblical'\<close>.\<close>

definition is_geography :: "document \<Rightarrow> bool" where
  "is_geography doc =
     (case doc_metadata doc of
        None \<Rightarrow> False
      | Some m \<Rightarrow> md_domain m = Some (js ''geography/biblical''))"

text \<open>The \<open>catch\<close> clause: an \<open>Error\<close> is thrown on, anything else is replaced.\<close>

definition rethrow :: "thrown \<Rightarrow> thrown" where
  "rethrow e =
     (case e of
        OtherValue \<Rightarrow> Error (js ''Network error. Please check your connection and try again.'')
      | _ \<Rightarrow> e)"

text \<open>
  \<open>fetchBiblicalPlaces env fetch now now' params placesCache\<close>: \<open>now\<close> is the clock at
  the cache test, \<open>now'\<close> the clock when the listing is stored. The result is the
  response or what is thrown, the cache afterwards, and the requests issued.
\<close>

definition fetchBiblicalPlaces ::
  "jsstring option \<Rightarrow> (http_request \<Rightarrow> http_response) \<Rightarrow> int \<Rightarrow> int \<Rightarrow>
   SearchPlacesParams \<Rightarrow> places_cache \<Rightarrow>
   (thrown + PlacesResponse) \<times> places_cache \<times> http_request list" where
  "fetchBiblicalPlaces env fetch now now' params placesCache =
     (let count = (case limit params of None \<Rightarrow> 100 | Some l \<Rightarrow> l);
          off = (case offset params of None \<Rightarrow> 0 | Some k \<Rightarrow> k);
          hit = (if no_filters params then placesCache_get placesCache now else None)
      in case hit of
           Some cached \<Rightarrow>
             (Inr \<lparr>places = slice cached off (off + count), total = int (length cached)\<rparr>,
              placesCache, [])
         | None \<Rightarrow>
             (let filters = build_filters (placeType params) (confidenceLevel params);
                  request = documents_request env
              in case fetch request of
                   FetchRejected e \<Rightarrow> (Inl (rethrow e), placesCache, [request])
                 | Response status body \<Rightarrow>
                     if \<not> (200 \<le> status \<and> status \<le> 299)
                     then (Inl (rethrow (status_error status)), placesCache, [request])
                     else (case body of
                             Inl e \<Rightarrow> (Inl (rethrow e), placesCache, [request])
                           | Inr body_data \<Rightarrow>
                               (case documents body_data of
                                  None \<Rightarrow> (Inl (rethrow TypeError), placesCache, [request])
                                | Some docs \<Rightarrow>
                                    (let allPlaces =
                                           map transformDocumentToPlace
                                             (filter is_geography docs);
                                         placesCache' =
                                           (if no_filters params
                                            then placesCache_set now' allPlaces
                                            else placesCache)
                                     in (Inr \<lparr>places = slice allPlaces off (off + count),
                                              total =
                                                (case body_total body_data of
                                                   None \<Rightarrow> int (length allPlaces)
                                                 | Some t \<Rightarrow>
                                                     if t \<noteq> 0 then t
                                                     else int (length allPlaces))\<rparr>,
                                         placesCache', [request]))))))"

text \<open>\<open>getPlacesByType\<close>: the places of the listing fetched with a place type.\<close>

definition getPlacesByType ::
  "jsstring option \<Rightarrow> (http_request \<Rightarrow> http_response) \<Rightarrow> int \<Rightarrow> int \<Rightarrow>
   jsstring \<Rightarrow> int option \<Rightarrow> places_cache \<Rightarrow>
   (thrown + BiblicalPlace list) \<times> places_cache \<times> http_request list" where
  "getPlacesByType env fetch now now' pt count placesCache =
     (case fetchBiblicalPlaces env fetch now now'
             \<lparr>p_query = None, placeType = Some pt, confidenceLevel = None,
              limit = Some (case count of None \<Rightarrow> 50 | Some l \<Rightarrow> l), offset = None\<rparr>
             placesCache of
        (Inl e, cache, reqs) \<Rightarrow> (Inl e, cache, reqs)
      | (Inr response, cache, reqs) \<Rightarrow> (Inr (places response), cache, reqs))"

text \<open>A collaborator that lists a single mountain.\<close>

definition sinai :: document where
  "sinai =
     \<lparr>doc_id = Some (js ''doc-1''), doc_document_id = None,
      doc_content = Some (js ''Mount Sinai: the mountain of the law''),
      doc_metadata = Some (empty_metadata
        \<lparr>md_domain := Some (js ''geography/biblical''),
         md_place_type := Some (js ''mountain''),
         md_confidence := Some 350\<rparr>)\<rparr>"

definition fetch_sinai :: "http_request \<Rightarrow> http_response" where
  "fetch_sinai request = Response 200 (Inr \<lparr>documents = Some [sinai], body_total = Some 1\<rparr>)"

definition all_places :: SearchPlacesParams where
  "all_places =
     \<lparr>p_query = None, placeType = None, confidenceLevel = None, limit = None, offset = None\<rparr>"

definition mountains :: SearchPlacesParams where
  "mountains = all_places\<lparr>placeType := Some (js ''mountain'')\<rparr>"


section \<open>The result exporters\<close>

definition dquote :: code_unit where
  "dquote = 0x22"

definition comma :: code_unit where
  "comma = 0x2C"

definition LF :: code_unit where
  "LF = 0x0A"

definition CR :: code_unit where
  "CR = 0x0D"

text \<open>\<open>s.replace(/\s+/g, '_')\<close>: every run of white space becomes one underscore.\<close>

function collapse_whitespace :: "jsstring \<Rightarrow> jsstring" where
  "collapse_whitespace [] = []"
| "collapse_whitespace (c # cs) =
     (if isWhiteSpace c then 0x5F # collapse_whitespace (dropWhile isWhiteSpace cs)
      else c # collapse_whitespace cs)"
  by pat_completeness auto
termination
  by (relation "measure length") (auto simp: length_dropWhile_le less_Suc_eq_le)

text \<open>
  The name of the downloaded file: the query with its white space collapsed, cut to 30
  code units, and the clock.
\<close>

definition export_filename :: "jsstring \<Rightarrow> int \<Rightarrow> jsstring \<Rightarrow> jsstring" where
  "export_filename q now extension =
     js ''search_'' @ take 30 (collapse_whitespace q) @ js ''_'' @ int_toString now @ extension"

text \<open>
  \<open>exportResults\<close> writes the text file. \<open>date\<close> is what \<open>toLocaleDateString()\<close>
  gives, \<open>now\<close> is the clock. The result is the content and the name of the file, and
  \<open>None\<close> when nothing is exported.
\<close>

definition result_lines :: "nat \<Rightarrow> SearchResult \<Rightarrow> jsstring list" where
  "result_lines index' result =
     [digits (index' + 1) @ js ''. '' @ verse_ref result @ js '' (''
        @ toUpperCase (translation_id (translation result)) @ js '')'',
      js ''   Similarity: '' @ toFixed0 (double_value (fmul (similarity result) hundred)) @ js ''%'',
      js ''   '' @ text' result,
      []]"

definition exportResults_lines :: "search_state \<Rightarrow> jsstring \<Rightarrow> jsstring list" where
  "exportResults_lines s date =
     [js ''Search Query: '' @ [dquote] @ searchQuery s @ [dquote],
      js ''Results: '' @ digits (length (searchResults s)),
      js ''Translations: ''
        @ toUpperCase (join (js '', '') (map translation_id (selectedTranslations s))),
      js ''Date: '' @ date,
      [],
      replicate 80 0x3D,
      []]
     @ concat (map (\<lambda>(index', result). result_lines index' result)
                 (enumerate 0 (searchResults s)))
     @ [replicate 80 0x3D,
        [],
        js ''Source: Prism Religious Studies (Christianity Module)'',
        js ''Search Engine: Prism (Personal Semantic Data Layer)'',
        js ''Embedding Model: nomic-embed-text (768 dimensions)'']"

definition exportResults :: "search_state \<Rightarrow> jsstring \<Rightarrow> int \<Rightarrow> (jsstring \<times> jsstring) option" where
  "exportResults s date now =
     (if length (searchResults s) = 0 then None
      else Some (join [LF] (exportResults_lines s date),
                 export_filename (searchQuery s) now (js ''.txt'')))"

text \<open>\<open>exportAsCSV\<close> writes the CSV file.\<close>

definition csv_headers :: "jsstring list" where
  "csv_headers =
     [js ''Reference'', js ''Book'', js ''Chapter'', js ''Verse'', js ''Translation'',
      js ''Similarity'', js ''Text'']"

definition escape_quotes :: "jsstring \<Rightarrow> jsstring" where
  "escape_quotes t = concat (map (\<lambda>c. if c = dquote then [dquote, dquote] else [c]) t)"

definition csv_row :: "SearchResult \<Rightarrow> jsstring list" where
  "csv_row r =
     [verse_ref r,
      book r,
      int_toString (chapter' r),
      int_toString (verse r),
      toUpperCase (translation_id (translation r)),
      toFixed0 (double_value (fmul (similarity r) hundred)) @ js ''%'',
      [dquote] @ escape_quotes (text' r) @ [dquote]]"

definition csvContent :: "SearchResult list \<Rightarrow> jsstring" where
  "csvContent results = join [LF] (join [comma] csv_headers # map (\<lambda>row. join [comma] row) (map csv_row results))"


text \<open>
  Modelled from the spec: \<open>parseCSV\<close>, the standard CSV parser of the export
  round-trip, is not among the sources. It reads records separated by line feeds, a
  carriage return before a line feed belonging to the line break, and fields separated
  by commas. A field that begins with a double quote runs to its closing double quote,
  a doubled double quote inside it standing for one; any other field runs to the next
  comma or line break. The parser is lenient: code units after a closing quote are
  added to the field.
\<close>

datatype csv_state = FieldStart | Unquoted | Quoted | QuoteSeen

fun parseCSV_from ::
  "csv_state \<Rightarrow> jsstring \<Rightarrow> jsstring list \<Rightarrow> jsstring \<Rightarrow> jsstring list list" where
  "parseCSV_from st field row [] =
     (if st = FieldStart \<and> row = [] then [] else [row @ [field]])"
| "parseCSV_from st field row (c # cs) =
     (if st = Quoted
      then (if c = dquote then parseCSV_from QuoteSeen field row cs
            else parseCSV_from Quoted (field @ [c]) row cs)
      else if st = QuoteSeen \<and> c = dquote then parseCSV_from Quoted (field @ [c]) row cs
      else if c = comma then parseCSV_from FieldStart [] (row @ [field]) cs
      else if c = LF then (row @ [field]) # parseCSV_from FieldStart [] [] cs
      else if c = CR \<and> (case cs of [] \<Rightarrow> False | d # ds \<Rightarrow> d = LF)
      then parseCSV_from st field row cs
      else if st = FieldStart \<and> c = dquote then parseCSV_from Quoted field row cs
      else parseCSV_from Unquoted (field @ [c]) row cs)"

definition parseCSV :: "jsstring \<Rightarrow> jsstring list list" where
  "parseCSV s = parseCSV_from FieldStart [] [] s"

text \<open>
  A string that stands in a CSV record as it is: it holds no comma, no double quote and
  no line break.
\<close>

definition plain :: "jsstring \<Rightarrow> bool" where
  "plain s \<longleftrightarrow> (\<forall>c \<in> set s. c \<noteq> comma \<and> c \<noteq> dquote \<and> c \<noteq> LF \<and> c \<noteq> CR)"


text \<open>
  The scenario of the specification: one result for the query \<open>shepherd\<close>. Its
  similarity is the number literal \<open>0.87\<close>, that is the double nearest to 0.87.
\<close>

definition similarity_087 :: double where
  "similarity_087 = Double 7836263351624663 (- 53)"

definition psalm :: SearchResult where
  "psalm =
     \<lparr>verse_ref = js ''Psalms 23:1'', book = js ''Psalms'', chapter' = 23, verse = 1,
      translation = kjv, text' = js ''The LORD is my shepherd...'',
      similarity = similarity_087\<rparr>"

definition shepherd :: search_state where
  "shepherd = initial\<lparr>query := js ''shepherd'', searchQuery := js ''shepherd'',
                      searchResults := [psalm]\<rparr>"


section \<open>Evaluating string literals\<close>

lemma js_simps: "js [] = []" "js (c # cs) = of_nat (of_char c) # js cs"
  by (simp_all add: js_def)

lemma trim_Nil [simp]: "trim [] = []"
  by (simp add: trim_def)


section \<open>Evaluating the product of two doubles\<close>

lemma bit_length_numeral:
  "bit_length (numeral (Num.Bit0 n)) = Suc (bit_length (numeral n))"
  "bit_length (numeral (Num.Bit1 n)) = Suc (bit_length (numeral n))"
  "bit_length 1 = 1" "bit_length (Suc 0) = Suc 0" "bit_length 0 = 0"
  by (subst bit_length.simps, simp)+


lemma fmul_087: "fmul similarity_087 hundred = Double 6122080743456768 (- 46)"
  by (simp add: fmul_def similarity_087_def hundred_def round_to_double_def bit_length_numeral
      round_shift_def Let_def)

lemma percent_087: "double_value (fmul similarity_087 hundred) = 87"
  by (simp add: fmul_087 double_value_def)

text \<open>
  The product is rounded before \<open>toFixed\<close> reads it. A hundred times the double
  nearest to 0.285 is a double below 28.5, printed as 28; a hundred times the double
  nearest to 0.615, itself below 0.615, is the double 61.5, printed as 62.
\<close>

lemma fmul_0285:
  "fmul (Double 5134103575202365 (- 54)) hundred = Double 8022036836253695 (- 48)"
  by (simp add: fmul_def hundred_def round_to_double_def bit_length_numeral round_shift_def
      Let_def)

lemma digits_28: "digits 28 = js ''28''"
  by (simp add: digits.simps digit_def js_simps)

lemma percent_0285:
  "\<bar>double_value (Double 5134103575202365 (- 54)) - 285 / 1000\<bar> \<le> 1 / 2 ^ 55 \<and>
   toFixed0 (double_value (fmul (Double 5134103575202365 (- 54)) hundred)) = js ''28''"
proof -
  have "\<lfloor>double_value (Double 8022036836253695 (- 48)) + 1 / 2\<rfloor> = 28"
    by (simp add: double_value_def)
  moreover have "\<not> double_value (Double 8022036836253695 (- 48)) < 0"
    by (simp add: double_value_def)
  ultimately have "toFixed0 (double_value (Double 8022036836253695 (- 48))) = js ''28''"
    by (simp add: toFixed0_def digits_28)
  moreover have "\<bar>double_value (Double 5134103575202365 (- 54)) - 285 / 1000\<bar> \<le> 1 / 2 ^ 55"
    by (simp add: double_value_def abs_if field_simps)
  ultimately show ?thesis
    by (simp add: fmul_0285)
qed

lemma fmul_0615:
  "fmul (Double 5539427541665710 (- 53)) hundred = Double 8655355533852672 (- 47)"
  by (simp add: fmul_def hundred_def round_to_double_def bit_length_numeral round_shift_def
      Let_def)

lemma digits_62: "digits 62 = js ''62''"
  by (simp add: digits.simps digit_def js_simps)

lemma percent_0615:
  "double_value (Double 5539427541665710 (- 53)) < 615 / 1000 \<and>
   toFixed0 (double_value (fmul (Double 5539427541665710 (- 53)) hundred)) = js ''62''"
proof -
  have "\<lfloor>double_value (Double 8655355533852672 (- 47)) + 1 / 2\<rfloor> = 62"
    by (simp add: double_value_def)
  moreover have "\<not> double_value (Double 8655355533852672 (- 47)) < 0"
    by (simp add: double_value_def)
  ultimately have "toFixed0 (double_value (Double 8655355533852672 (- 47))) = js ''62''"
    by (simp add: toFixed0_def digits_62)
  moreover have "double_value (Double 5539427541665710 (- 53)) < 615 / 1000"
    by (simp add: double_value_def field_simps)
  ultimately show ?thesis
    by (simp add: fmul_0615)
qed


section \<open>Confidence levels: the thresholds\<close>

text \<open>
  C1. For every score, \<open>getConfidenceLevel\<close> answers \<open>high\<close> exactly from 300 on,
  \<open>moderate\<close> exactly from 80 up to but excluding 300, and \<open>low\<close> exactly below 80,
  zero and the negative scores included. It is a function of the score alone, with a
  value for every score.
\<close>

theorem getConfidenceLevel_thresholds:
  "(getConfidenceLevel s = high \<longleftrightarrow> s \<ge> 300) \<and>
   (getConfidenceLevel s = moderate \<longleftrightarrow> 80 \<le> s \<and> s < 300) \<and>
   (getConfidenceLevel s = low \<longleftrightarrow> s < 80)"
  by (simp add: getConfidenceLevel_def)


section \<open>The search bar: what a search does to the state\<close>

text \<open>
  While the query is shorter than three code units after trimming, no event but an
  input dispatches a request, and the query stays as short.
\<close>

lemma step_short:
  assumes "length (trim (query s)) \<le> 2" and "\<not> is_Input e"
  shows "snd (step e s) = None \<and> length (trim (query (fst (step e s)))) \<le> 2"
  using assms
  by (cases e)
     (auto simp: handleSubmit_def clearSearch_def timerFires_def performSearch_begin_def
        performSearch_settle_def searchQuery_set_def split: sum.splits)

lemma run_short:
  assumes "length (trim (query s)) \<le> 2" and "\<forall>e \<in> set es. \<not> is_Input e"
  shows "snd (run es s) = []"
  using assms
proof (induction es arbitrary: s)
  case Nil
  then show ?case by simp
next
  case (Cons e es)
  from Cons.prems have e: "\<not> is_Input e" and es: "\<forall>e \<in> set es. \<not> is_Input e"
    by simp_all
  from step_short [OF Cons.prems(1) e]
  have none: "snd (step e s) = None" and short: "length (trim (query (fst (step e s)))) \<le> 2"
    by simp_all
  from Cons.IH [OF short es] none show ?case
    by (simp add: case_prod_beta)
qed

text \<open>
  C2. On every execution of \<open>performSearch\<close> whose trimmed query has at least three
  code units, the in-progress flag is set and the error is cleared before the
  collaborator is called, with the query, the selected translations and the result
  limit; when the collaborator answers with results they replace the result state, when
  it fails the user-facing message is set, and on either path the flag is false when the
  execution ends, whatever the state is that the answer arrives in. On the early return,
  for a shorter query, nothing is dispatched and the state is left as it was. So an
  execution that starts with the flag false ends with the flag false on every path:
  success, failure and early return.
\<close>

theorem performSearch_paths:
  "(3 \<le> length (trim (query s)) \<longrightarrow>
      isSearching (fst (performSearch_begin s)) \<and>
      searchError (fst (performSearch_begin s)) = None \<and>
      snd (performSearch_begin s) =
        Some \<lparr>req_query = query s, req_translations = selectedTranslations s,
              req_top_k = top_k s\<rparr> \<and>
      (\<forall>results.
         searchBible \<lparr>req_query = query s, req_translations = selectedTranslations s,
                      req_top_k = top_k s\<rparr> = Inr results \<longrightarrow>
         searchResults (performSearch searchBible s) = results) \<and>
      (\<forall>e.
         searchBible \<lparr>req_query = query s, req_translations = selectedTranslations s,
                      req_top_k = top_k s\<rparr> = Inl e \<longrightarrow>
         searchError (performSearch searchBible s) =
           Some (js ''Search failed. Please check that Prism is running.'')) \<and>
      \<not> isSearching (performSearch searchBible s)) \<and>
   searchResults (performSearch_settle (Inr results) s') = results \<and>
   \<not> isSearching (performSearch_settle (Inr results) s') \<and>
   searchError (performSearch_settle (Inl e) s') =
     Some (js ''Search failed. Please check that Prism is running.'') \<and>
   \<not> isSearching (performSearch_settle (Inl e) s') \<and>
   (length (trim (query s)) < 3 \<longrightarrow>
      performSearch_begin s = (s, None) \<and> performSearch searchBible s = s) \<and>
   (\<not> isSearching s \<longrightarrow> \<not> isSearching (performSearch searchBible s))"
  by (simp add: performSearch_begin_def performSearch_settle_def performSearch_def
      split: sum.splits)

text \<open>
  The theorem at \<open>shepherd\<close> typed into the initial state, with a collaborator that
  answers and with one that fails, and at the initial state's empty query.
\<close>

theorem performSearch_paths_witness:
  "3 \<le> length (trim (query (handleInput (js ''shepherd'') initial))) \<and>
   isSearching (fst (performSearch_begin (handleInput (js ''shepherd'') initial))) \<and>
   searchError (fst (performSearch_begin (handleInput (js ''shepherd'') initial))) = None \<and>
   snd (performSearch_begin (handleInput (js ''shepherd'') initial)) =
     Some \<lparr>req_query = js ''shepherd'', req_translations = [kjv], req_top_k = 10\<rparr> \<and>
   searchResults (performSearch searchBible_none (handleInput (js ''shepherd'') initial)) = [] \<and>
   \<not> isSearching (performSearch searchBible_none (handleInput (js ''shepherd'') initial)) \<and>
   searchError (performSearch searchBible_fails (handleInput (js ''shepherd'') initial)) =
     Some (js ''Search failed. Please check that Prism is running.'') \<and>
   \<not> isSearching (performSearch searchBible_fails (handleInput (js ''shepherd'') initial)) \<and>
   length (trim (query initial)) < 3 \<and>
   \<not> isSearching initial \<and>
   performSearch_begin initial = (initial, None) \<and>
   performSearch searchBible_none initial = initial \<and>
   \<not> isSearching (performSearch searchBible_none initial)"
proof -
  let ?s = "handleInput (js ''shepherd'') initial"
  have long: "3 \<le> length (trim (query ?s))"
    by (simp add: js_simps initial_def handleInput_def searchQuery_set_def trim_def
        isWhiteSpace_def)
  have short: "length (trim (query initial)) < 3" and idle: "\<not> isSearching initial"
    by (simp_all add: initial_def)
  have q: "query ?s = js ''shepherd''"
    and t: "selectedTranslations ?s = [kjv]"
    and k: "top_k ?s = 10"
    by (simp_all add: initial_def handleInput_def searchQuery_set_def Let_def)
  have answers: "searchBible_none
      \<lparr>req_query = query ?s, req_translations = selectedTranslations ?s, req_top_k = top_k ?s\<rparr>
      = Inr []"
    by (simp add: searchBible_none_def)
  have fails: "searchBible_fails
      \<lparr>req_query = query ?s, req_translations = selectedTranslations ?s, req_top_k = top_k ?s\<rparr>
      = Inl (js ''Failed to fetch'')"
    by (simp add: searchBible_fails_def)
  from performSearch_paths [of ?s searchBible_none] long answers
  have ok: "isSearching (fst (performSearch_begin ?s))"
    "searchError (fst (performSearch_begin ?s)) = None"
    "snd (performSearch_begin ?s) =
       Some \<lparr>req_query = query ?s, req_translations = selectedTranslations ?s,
             req_top_k = top_k ?s\<rparr>"
    "searchResults (performSearch searchBible_none ?s) = []"
    "\<not> isSearching (performSearch searchBible_none ?s)"
    by blast+
  from performSearch_paths [of ?s searchBible_fails] long fails
  have bad: "searchError (performSearch searchBible_fails ?s) =
       Some (js ''Search failed. Please check that Prism is running.'')"
    "\<not> isSearching (performSearch searchBible_fails ?s)"
    by blast+
  from performSearch_paths [of initial searchBible_none] short idle
  have early: "performSearch_begin initial = (initial, None)"
    "performSearch searchBible_none initial = initial"
    "\<not> isSearching (performSearch searchBible_none initial)"
    by blast+
  from long short idle ok bad early show ?thesis
    by (simp add: q t k)
qed


section \<open>The search bar: short queries\<close>

text \<open>
  C3. For every input whose trimmed length is at most 2, \<open>handleInput\<close> clears the
  result state at once and leaves no timeout pending; a forced submit dispatches no
  request, a timeout that fires dispatches none, and no sequence of later events
  dispatches one until the next input.
\<close>

theorem short_query_no_dispatch:
  assumes "length (trim v) \<le> 2"
  shows "searchResults (handleInput v s) = [] \<and>
         \<not> debounceTimer (handleInput v s) \<and>
         snd (handleSubmit (handleInput v s)) = None \<and>
         snd (timerFires (handleInput v s)) = None \<and>
         ((\<forall>e \<in> set es. \<not> is_Input e) \<longrightarrow> snd (run es (handleInput v s)) = [])"
proof -
  have q: "query (handleInput v s) = v"
    by (simp add: handleInput_def searchQuery_set_def Let_def)
  have short: "length (trim (query (handleInput v s))) \<le> 2"
    using assms q by simp
  have "searchResults (handleInput v s) = []" "\<not> debounceTimer (handleInput v s)"
    using assms by (simp_all add: handleInput_def searchQuery_set_def Let_def)
  moreover have "snd (handleSubmit (handleInput v s)) = None"
    using short by (simp add: handleSubmit_def)
  moreover have "snd (timerFires (handleInput v s)) = None"
    using short by (simp add: timerFires_def performSearch_begin_def)
  moreover have "(\<forall>e \<in> set es. \<not> is_Input e) \<longrightarrow> snd (run es (handleInput v s)) = []"
    using run_short [OF short] by blast
  ultimately show ?thesis by blast
qed

text \<open>
  The theorem at the input \<open>ab\<close> with a blank on either side, typed over \<open>shepherd\<close>
  while that keystroke's timeout is pending.
\<close>

theorem short_query_no_dispatch_witness:
  "length (trim (js '' ab '')) \<le> 2 \<and>
   searchResults (handleInput (js '' ab '') (handleInput (js ''shepherd'') initial)) = [] \<and>
   \<not> debounceTimer (handleInput (js '' ab '') (handleInput (js ''shepherd'') initial)) \<and>
   snd (handleSubmit (handleInput (js '' ab '') (handleInput (js ''shepherd'') initial))) = None \<and>
   snd (timerFires (handleInput (js '' ab '') (handleInput (js ''shepherd'') initial))) = None \<and>
   snd (run [TimerFires, Submit, Settles (Inr []), TimerFires]
          (handleInput (js '' ab '') (handleInput (js ''shepherd'') initial))) = []"
proof -
  have h: "length (trim (js '' ab '')) \<le> 2"
    by (simp add: js_simps trim_def isWhiteSpace_def)
  have es: "\<forall>e \<in> set [TimerFires, Submit, Settles (Inr []), TimerFires]. \<not> is_Input e"
    by simp
  from short_query_no_dispatch [OF h, of "handleInput (js ''shepherd'') initial"
      "[TimerFires, Submit, Settles (Inr []), TimerFires]"] es h
  show ?thesis by blast
qed


section \<open>The search bar: clearing the query\<close>

text \<open>
  C10 as the claim states it fails: \<open>clearSearch\<close> does not touch the timeout. After
  \<open>abc\<close> is typed into the initial state and the query is cleared, the timeout of that
  keystroke is still pending.
\<close>

theorem clearSearch_keeps_timer_counterexample:
  "debounceTimer (clearSearch (handleInput (js ''abc'') initial))"
  by (simp add: js_simps initial_def handleInput_def clearSearch_def
      searchQuery_set_def trim_def isWhiteSpace_def)

text \<open>
  C10, as the code has it. \<open>clearSearch\<close> leaves a pending timeout as it is, and
  empties the query. When the timeout fires, \<open>performSearch\<close> finds the empty query and
  returns before it dispatches anything; and no sequence of events after the clearing
  dispatches a request until the next input, which cancels the timeout.
\<close>

theorem clearSearch_no_stale_request:
  "debounceTimer (clearSearch s) = debounceTimer s \<and>
   snd (timerFires (clearSearch s)) = None \<and>
   ((\<forall>e \<in> set es. \<not> is_Input e) \<longrightarrow> snd (run es (clearSearch s)) = [])"
proof -
  have short: "length (trim (query (clearSearch s))) \<le> 2"
    by (simp add: clearSearch_def searchQuery_set_def)
  have "debounceTimer (clearSearch s) = debounceTimer s"
    by (simp add: clearSearch_def searchQuery_set_def)
  moreover have "snd (timerFires (clearSearch s)) = None"
    using short by (simp add: timerFires_def performSearch_begin_def)
  moreover have "(\<forall>e \<in> set es. \<not> is_Input e) \<longrightarrow> snd (run es (clearSearch s)) = []"
    using run_short [OF short] by blast
  ultimately show ?thesis by blast
qed

text \<open>The theorem after \<open>shepherd\<close> was typed, with the timeout firing once the query is cleared.\<close>

theorem clearSearch_no_stale_request_witness:
  "debounceTimer (clearSearch (handleInput (js ''shepherd'') initial)) \<and>
   snd (timerFires (clearSearch (handleInput (js ''shepherd'') initial))) = None \<and>
   snd (run [TimerFires, Submit, Clear] (clearSearch (handleInput (js ''shepherd'') initial))) = []"
proof -
  have es: "\<forall>e \<in> set [TimerFires, Submit, Clear]. \<not> is_Input e"
    by simp
  have pending: "debounceTimer (handleInput (js ''shepherd'') initial)"
    by (simp add: js_simps initial_def handleInput_def searchQuery_set_def trim_def
        isWhiteSpace_def)
  from clearSearch_no_stale_request [of "handleInput (js ''shepherd'') initial"
      "[TimerFires, Submit, Clear]"] es pending
  show ?thesis by blast
qed


section \<open>The response caches\<close>

text \<open>What a Hebrew lookup does on a miss, on an entry within its TTL and on an expired one.\<close>

lemma getHebrewText_miss:
  assumes "verseCache_get cache now (js ''hebrew:'' @ verse_key b c n) = None"
  shows "getHebrewText fetch now now' b c n cache =
           (Some (getMockHebrewText b c n),
            verseCache_set cache now' (js ''hebrew:'' @ verse_key b c n) (getMockHebrewText b c n),
            [MockHebrewText b c n])"
  using assms by (simp add: getHebrewText_def USE_MOCK_DATA_def Let_def)

lemma getHebrewText_hit:
  assumes "verseCache_get cache now (js ''hebrew:'' @ verse_key b c n) = Some v"
  shows "getHebrewText fetch now now' b c n cache = (Some v, cache, [])"
  using assms by (simp add: getHebrewText_def Let_def)

lemma verseCache_get_set:
  "verseCache_get (verseCache_set cache t k v) t' k =
     (if t' - t < CACHE_TTL_sword then Some v else None)"
  by (simp add: verseCache_get_def verseCache_set_def)

lemma verseCache_set_set:
  "verseCache_set (verseCache_set cache t k v) t' k v' = verseCache_set cache t' k v'"
  by (simp add: verseCache_set_def)

text \<open>The same of an unfiltered fetch of the places.\<close>

lemma placesCache_get_set:
  "placesCache_get (placesCache_set t ps) t' =
     (if t' - t < CACHE_TTL_geography then Some ps else None)"
  by (simp add: placesCache_get_def placesCache_set_def)

lemma fetchBiblicalPlaces_hit:
  assumes "no_filters params" and "placesCache_get placesCache now = Some ps"
  shows "fetchBiblicalPlaces env fetch now now' params placesCache =
           (Inr \<lparr>places = slice ps
                            (case offset params of None \<Rightarrow> 0 | Some k \<Rightarrow> k)
                            ((case offset params of None \<Rightarrow> 0 | Some k \<Rightarrow> k)
                             + (case limit params of None \<Rightarrow> 100 | Some l \<Rightarrow> l)),
                 total = int (length ps)\<rparr>,
            placesCache, [])"
  using assms by (simp add: fetchBiblicalPlaces_def Let_def)

lemma fetchBiblicalPlaces_store:
  assumes "no_filters params" and "placesCache_get placesCache now = None"
    and "fetch (documents_request env) =
           Response 200 (Inr \<lparr>documents = Some docs, body_total = tot\<rparr>)"
  shows "snd (fetchBiblicalPlaces env fetch now now' params placesCache) =
           (placesCache_set now' (map transformDocumentToPlace (filter is_geography docs)),
            [documents_request env])"
  using assms by (simp add: fetchBiblicalPlaces_def Let_def)

lemma fetchBiblicalPlaces_stale:
  assumes "placesCache_get placesCache now = None"
  shows "fst (fetchBiblicalPlaces env fetch now now' params placesCache) =
           fst (fetchBiblicalPlaces env fetch now now' params None) \<and>
         snd (snd (fetchBiblicalPlaces env fetch now now' params placesCache)) =
           [documents_request env]"
  using assms
  by (simp add: fetchBiblicalPlaces_def placesCache_get_def Let_def
      split: http_response.splits sum.splits option.splits)

text \<open>
  C4. For every key and payload, a write to \<open>verseCache\<close> followed by a read of the
  same key returns the payload, whatever the cache held before: at the same clock
  reading, and at any later one that is less than the TTL after the write; once the
  time since the write is no longer less than the TTL the read returns nothing. So does
  \<open>getHebrewText\<close>: on a miss it stores what the provider gives under the verse's key,
  with the clock; over an entry written less than the TTL ago it returns the payload
  of the entry and calls no provider; over an older entry it calls the provider and
  replaces the entry, as on a cache without it. The same holds of \<open>placesCache\<close> and
  the unfiltered \<open>fetchBiblicalPlaces\<close>: the listing is stored with the clock, served
  from the cache without a request while it is younger than the TTL, and fetched again
  afterwards.
\<close>

theorem cache_put_get:
  "verseCache_get (verseCache_set cache t k v) t k = Some v \<and>
   (t' - t < CACHE_TTL_sword \<longrightarrow> verseCache_get (verseCache_set cache t k v) t' k = Some v) \<and>
   (\<not> t' - t < CACHE_TTL_sword \<longrightarrow> verseCache_get (verseCache_set cache t k v) t' k = None) \<and>
   (verseCache_get cache t (js ''hebrew:'' @ verse_key b c n) = None \<longrightarrow>
      getHebrewText fetch t t' b c n cache =
        (Some (getMockHebrewText b c n),
         verseCache_set cache t' (js ''hebrew:'' @ verse_key b c n) (getMockHebrewText b c n),
         [MockHebrewText b c n])) \<and>
   (t' - t < CACHE_TTL_sword \<longrightarrow>
      getHebrewText fetch t' t'' b c n
          (verseCache_set cache t (js ''hebrew:'' @ verse_key b c n) v) =
        (Some v, verseCache_set cache t (js ''hebrew:'' @ verse_key b c n) v, [])) \<and>
   (\<not> t' - t < CACHE_TTL_sword \<longrightarrow>
      getHebrewText fetch t' t'' b c n
          (verseCache_set cache t (js ''hebrew:'' @ verse_key b c n) v) =
        (Some (getMockHebrewText b c n),
         verseCache_set cache t'' (js ''hebrew:'' @ verse_key b c n) (getMockHebrewText b c n),
         [MockHebrewText b c n]) \<and>
      getHebrewText fetch t' t'' b c n
          (verseCache_set cache t (js ''hebrew:'' @ verse_key b c n) v) =
        getHebrewText fetch t' t'' b c n (cache((js ''hebrew:'' @ verse_key b c n) := None))) \<and>
   placesCache_get (placesCache_set t ps) t = Some ps \<and>
   (t' - t < CACHE_TTL_geography \<longrightarrow> placesCache_get (placesCache_set t ps) t' = Some ps) \<and>
   (\<not> t' - t < CACHE_TTL_geography \<longrightarrow> placesCache_get (placesCache_set t ps) t' = None) \<and>
   (no_filters params \<and> placesCache_get placesCache t = None \<and>
    fetch' (documents_request env) =
      Response 200 (Inr \<lparr>documents = Some docs, body_total = tot\<rparr>) \<longrightarrow>
      snd (fetchBiblicalPlaces env fetch' t t' params placesCache) =
        (placesCache_set t' (map transformDocumentToPlace (filter is_geography docs)),
         [documents_request env])) \<and>
   (no_filters params \<and> t' - t < CACHE_TTL_geography \<longrightarrow>
      fetchBiblicalPlaces env fetch' t' t'' params (placesCache_set t ps) =
        (Inr \<lparr>places = slice ps
                         (case offset params of None \<Rightarrow> 0 | Some k \<Rightarrow> k)
                         ((case offset params of None \<Rightarrow> 0 | Some k \<Rightarrow> k)
                          + (case limit params of None \<Rightarrow> 100 | Some l \<Rightarrow> l)),
              total = int (length ps)\<rparr>,
         placesCache_set t ps, [])) \<and>
   (\<not> t' - t < CACHE_TTL_geography \<longrightarrow>
      fst (fetchBiblicalPlaces env fetch' t' t'' params (placesCache_set t ps)) =
        fst (fetchBiblicalPlaces env fetch' t' t'' params None) \<and>
      snd (snd (fetchBiblicalPlaces env fetch' t' t'' params (placesCache_set t ps))) =
        [documents_request env])"
proof -
  let ?key = "js ''hebrew:'' @ verse_key b c n"
  have a: "verseCache_get (verseCache_set cache t k v) t k = Some v"
    by (simp add: verseCache_get_set CACHE_TTL_sword_def)
  have b: "t' - t < CACHE_TTL_sword \<longrightarrow> verseCache_get (verseCache_set cache t k v) t' k = Some v"
    by (simp add: verseCache_get_set)
  have c: "\<not> t' - t < CACHE_TTL_sword \<longrightarrow> verseCache_get (verseCache_set cache t k v) t' k = None"
    by (simp add: verseCache_get_set)
  have d: "verseCache_get cache t ?key = None \<longrightarrow>
      getHebrewText fetch t t' b c n cache =
        (Some (getMockHebrewText b c n),
         verseCache_set cache t' ?key (getMockHebrewText b c n), [MockHebrewText b c n])"
    by (simp add: getHebrewText_miss)
  have e: "t' - t < CACHE_TTL_sword \<longrightarrow>
      getHebrewText fetch t' t'' b c n (verseCache_set cache t ?key v) =
        (Some v, verseCache_set cache t ?key v, [])"
    by (simp add: getHebrewText_hit verseCache_get_set)
  have f: "\<not> t' - t < CACHE_TTL_sword \<longrightarrow>
      getHebrewText fetch t' t'' b c n (verseCache_set cache t ?key v) =
        (Some (getMockHebrewText b c n),
         verseCache_set cache t'' ?key (getMockHebrewText b c n), [MockHebrewText b c n]) \<and>
      getHebrewText fetch t' t'' b c n (verseCache_set cache t ?key v) =
        getHebrewText fetch t' t'' b c n (cache(?key := None))"
  proof
    assume old: "\<not> t' - t < CACHE_TTL_sword"
    then have "verseCache_get (verseCache_set cache t ?key v) t' ?key = None"
      by (simp add: verseCache_get_set)
    from getHebrewText_miss [OF this, of fetch t'']
    have stale: "getHebrewText fetch t' t'' b c n (verseCache_set cache t ?key v) =
        (Some (getMockHebrewText b c n),
         verseCache_set cache t'' ?key (getMockHebrewText b c n), [MockHebrewText b c n])"
      by (simp add: verseCache_set_set)
    have "verseCache_get (cache(?key := None)) t' ?key = None"
      by (simp add: verseCache_get_def)
    from getHebrewText_miss [OF this, of fetch t'']
    have cold: "getHebrewText fetch t' t'' b c n (cache(?key := None)) =
        (Some (getMockHebrewText b c n),
         verseCache_set cache t'' ?key (getMockHebrewText b c n), [MockHebrewText b c n])"
      by (simp add: verseCache_set_def)
    from stale cold
    show "getHebrewText fetch t' t'' b c n (verseCache_set cache t ?key v) =
        (Some (getMockHebrewText b c n),
         verseCache_set cache t'' ?key (getMockHebrewText b c n), [MockHebrewText b c n]) \<and>
      getHebrewText fetch t' t'' b c n (verseCache_set cache t ?key v) =
        getHebrewText fetch t' t'' b c n (cache(?key := None))"
      by simp
  qed
  have g: "placesCache_get (placesCache_set t ps) t = Some ps"
    by (simp add: placesCache_get_set CACHE_TTL_geography_def)
  have h: "t' - t < CACHE_TTL_geography \<longrightarrow> placesCache_get (placesCache_set t ps) t' = Some ps"
    by (simp add: placesCache_get_set)
  have i: "\<not> t' - t < CACHE_TTL_geography \<longrightarrow> placesCache_get (placesCache_set t ps) t' = None"
    by (simp add: placesCache_get_set)
  have j: "no_filters params \<and> placesCache_get placesCache t = None \<and>
    fetch' (documents_request env) =
      Response 200 (Inr \<lparr>documents = Some docs, body_total = tot\<rparr>) \<longrightarrow>
      snd (fetchBiblicalPlaces env fetch' t t' params placesCache) =
        (placesCache_set t' (map transformDocumentToPlace (filter is_geography docs)),
         [documents_request env])"
    using fetchBiblicalPlaces_store [of params placesCache t fetch' env docs tot t'] by blast
  have k: "no_filters params \<and> t' - t < CACHE_TTL_geography \<longrightarrow>
      fetchBiblicalPlaces env fetch' t' t'' params (placesCache_set t ps) =
        (Inr \<lparr>places = slice ps
                         (case offset params of None \<Rightarrow> 0 | Some k \<Rightarrow> k)
                         ((case offset params of None \<Rightarrow> 0 | Some k \<Rightarrow> k)
                          + (case limit params of None \<Rightarrow> 100 | Some l \<Rightarrow> l)),
              total = int (length ps)\<rparr>,
         placesCache_set t ps, [])"
    by (simp add: fetchBiblicalPlaces_hit placesCache_get_set)
  have l: "\<not> t' - t < CACHE_TTL_geography \<longrightarrow>
      fst (fetchBiblicalPlaces env fetch' t' t'' params (placesCache_set t ps)) =
        fst (fetchBiblicalPlaces env fetch' t' t'' params None) \<and>
      snd (snd (fetchBiblicalPlaces env fetch' t' t'' params (placesCache_set t ps))) =
        [documents_request env]"
    using fetchBiblicalPlaces_stale [of "placesCache_set t ps" t' env fetch' t'' params]
    by (simp add: placesCache_get_set)
  from a b c d e f g h i j k l show ?thesis by blast
qed


text \<open>
  The theorem at the Hebrew lookup of Psalms 23:1 on an empty cache at time 0, stored
  at 5, and at the lookups one second and thirty minutes later; and at the unfiltered
  fetch of the places on a cold cache, against a collaborator that lists Mount Sinai,
  and at the fetches one second and ten minutes later.
\<close>

theorem cache_put_get_witness:
  "verseCache_get Map.empty 0 (js ''hebrew:'' @ verse_key (js ''Psalms'') 23 1) = None \<and>
   getHebrewText fetch_unreachable 0 5 (js ''Psalms'') 23 1 Map.empty =
     (Some (getMockHebrewText (js ''Psalms'') 23 1),
      verseCache_set Map.empty 5 (js ''hebrew:'' @ verse_key (js ''Psalms'') 23 1)
        (getMockHebrewText (js ''Psalms'') 23 1),
      [MockHebrewText (js ''Psalms'') 23 1]) \<and>
   (1000 :: int) - 5 < CACHE_TTL_sword \<and>
   getHebrewText fetch_unreachable 1000 1000 (js ''Psalms'') 23 1
       (verseCache_set Map.empty 5 (js ''hebrew:'' @ verse_key (js ''Psalms'') 23 1)
          (getMockHebrewText (js ''Psalms'') 23 1)) =
     (Some (getMockHebrewText (js ''Psalms'') 23 1),
      verseCache_set Map.empty 5 (js ''hebrew:'' @ verse_key (js ''Psalms'') 23 1)
        (getMockHebrewText (js ''Psalms'') 23 1),
      []) \<and>
   \<not> (1800005 :: int) - 5 < CACHE_TTL_sword \<and>
   getHebrewText fetch_unreachable 1800005 1800006 (js ''Psalms'') 23 1
       (verseCache_set Map.empty 5 (js ''hebrew:'' @ verse_key (js ''Psalms'') 23 1)
          (getMockHebrewText (js ''Psalms'') 23 1)) =
     (Some (getMockHebrewText (js ''Psalms'') 23 1),
      verseCache_set Map.empty 1800006 (js ''hebrew:'' @ verse_key (js ''Psalms'') 23 1)
        (getMockHebrewText (js ''Psalms'') 23 1),
      [MockHebrewText (js ''Psalms'') 23 1]) \<and>
   no_filters all_places \<and>
   placesCache_get None 0 = None \<and>
   snd (fetchBiblicalPlaces None fetch_sinai 0 5 all_places None) =
     (placesCache_set 5 [transformDocumentToPlace sinai], [documents_request None]) \<and>
   (1000 :: int) - 5 < CACHE_TTL_geography \<and>
   fetchBiblicalPlaces None fetch_sinai 1000 1000 all_places
       (placesCache_set 5 [transformDocumentToPlace sinai]) =
     (Inr \<lparr>places = [transformDocumentToPlace sinai], total = 1\<rparr>,
      placesCache_set 5 [transformDocumentToPlace sinai], []) \<and>
   \<not> (600005 :: int) - 5 < CACHE_TTL_geography \<and>
   snd (snd (fetchBiblicalPlaces None fetch_sinai 600005 600006 all_places
               (placesCache_set 5 [transformDocumentToPlace sinai]))) =
     [documents_request None]"
proof -
  let ?key = "js ''hebrew:'' @ verse_key (js ''Psalms'') 23 1"
  let ?v = "getMockHebrewText (js ''Psalms'') 23 1"
  let ?ps = "[transformDocumentToPlace sinai]"
  have miss: "verseCache_get Map.empty 0 ?key = None"
    by (simp add: verseCache_get_def)
  have young: "(1000 :: int) - 5 < CACHE_TTL_sword" and old: "\<not> (1800005 :: int) - 5 < CACHE_TTL_sword"
    by (simp_all add: CACHE_TTL_sword_def)
  have unfiltered: "no_filters all_places"
    by (simp add: no_filters_def all_places_def truthy_def)
  have cold: "placesCache_get None 0 = None"
    by (simp add: placesCache_get_def)
  have answer: "fetch_sinai (documents_request None) =
      Response 200 (Inr \<lparr>documents = Some [sinai], body_total = Some 1\<rparr>)"
    by (simp add: fetch_sinai_def)
  have geo: "is_geography sinai"
    by (simp add: is_geography_def sinai_def empty_metadata_def)
  have warm: "(1000 :: int) - 5 < CACHE_TTL_geography"
    and expired: "\<not> (600005 :: int) - 5 < CACHE_TTL_geography"
    by (simp_all add: CACHE_TTL_geography_def)
  have window: "slice ?ps 0 (0 + 100) = ?ps"
    by (simp add: slice_def)
  have params: "offset all_places = None" "limit all_places = None"
    by (simp_all add: all_places_def)
  note hebrew = cache_put_get [where cache = Map.empty and b = "js ''Psalms''" and c = 23
      and n = 1 and fetch = fetch_unreachable and v = ?v and k = ?key and ps = ?ps
      and env = None and fetch' = fetch_sinai and params = all_places and docs = "[sinai]"
      and tot = "Some 1" and placesCache = None]
  from hebrew [where t = 0 and t' = 5 and t'' = 5] miss
  have first: "getHebrewText fetch_unreachable 0 5 (js ''Psalms'') 23 1 Map.empty =
      (Some ?v, verseCache_set Map.empty 5 ?key ?v, [MockHebrewText (js ''Psalms'') 23 1])"
    by blast
  from hebrew [where t = 0 and t' = 5 and t'' = 5] unfiltered cold answer
  have "snd (fetchBiblicalPlaces None fetch_sinai 0 5 all_places None) =
      (placesCache_set 5 (map transformDocumentToPlace (filter is_geography [sinai])),
       [documents_request None])"
    by blast
  then have stored: "snd (fetchBiblicalPlaces None fetch_sinai 0 5 all_places None) =
      (placesCache_set 5 ?ps, [documents_request None])"
    by (simp add: geo)
  from hebrew [where t = 5 and t' = 1000 and t'' = 1000] young
  have second: "getHebrewText fetch_unreachable 1000 1000 (js ''Psalms'') 23 1
        (verseCache_set Map.empty 5 ?key ?v) =
      (Some ?v, verseCache_set Map.empty 5 ?key ?v, [])"
    by blast
  from hebrew [where t = 5 and t' = 1000 and t'' = 1000] warm unfiltered
  have "fetchBiblicalPlaces None fetch_sinai 1000 1000 all_places (placesCache_set 5 ?ps) =
      (Inr \<lparr>places = slice ?ps
                       (case offset all_places of None \<Rightarrow> 0 | Some k \<Rightarrow> k)
                       ((case offset all_places of None \<Rightarrow> 0 | Some k \<Rightarrow> k)
                        + (case limit all_places of None \<Rightarrow> 100 | Some l \<Rightarrow> l)),
            total = int (length ?ps)\<rparr>,
       placesCache_set 5 ?ps, [])"
    by blast
  then have served: "fetchBiblicalPlaces None fetch_sinai 1000 1000 all_places
        (placesCache_set 5 ?ps) =
      (Inr \<lparr>places = ?ps, total = 1\<rparr>, placesCache_set 5 ?ps, [])"
    using window by (simp add: params)
  from hebrew [where t = 5 and t' = 1800005 and t'' = 1800006] old
  have third: "getHebrewText fetch_unreachable 1800005 1800006 (js ''Psalms'') 23 1
        (verseCache_set Map.empty 5 ?key ?v) =
      (Some ?v, verseCache_set Map.empty 1800006 ?key ?v, [MockHebrewText (js ''Psalms'') 23 1])"
    by blast
  from hebrew [where t = 5 and t' = 600005 and t'' = 600006] expired
  have fourth: "snd (snd (fetchBiblicalPlaces None fetch_sinai 600005 600006 all_places
        (placesCache_set 5 ?ps))) = [documents_request None]"
    by blast
  from miss young old unfiltered cold warm expired first stored second served third fourth
  show ?thesis by simp
qed


section \<open>Geography: the cache and the filters\<close>

text \<open>
  With a filter among its parameters \<open>fetchBiblicalPlaces\<close> issues its one request and
  leaves the cache as it is; and what it returns does not depend on the cache.
\<close>

lemma fetch_with_filter:
  assumes "\<not> no_filters params"
  shows "snd (fetchBiblicalPlaces env fetch now now' params placesCache) =
           (placesCache, [documents_request env])"
  using assms
  by (simp add: fetchBiblicalPlaces_def Let_def
      split: http_response.splits sum.splits option.splits)

lemma fetch_ignores_cache_with_filter:
  assumes "\<not> no_filters params"
  shows "fst (fetchBiblicalPlaces env fetch now now' params placesCache) =
         fst (fetchBiblicalPlaces env fetch now now' params None)"
  using assms
  by (simp add: fetchBiblicalPlaces_def Let_def
      split: http_response.splits sum.splits option.splits)

lemma fetch_unfiltered_miss:
  assumes "no_filters params" and "placesCache_get placesCache now = None"
    and "fst (fetchBiblicalPlaces env fetch now now' params placesCache) = Inr response"
  shows "\<exists>allPlaces. fst (snd (fetchBiblicalPlaces env fetch now now' params placesCache)) =
            placesCache_set now' allPlaces \<and>
          places response =
            slice allPlaces (case offset params of None \<Rightarrow> 0 | Some k \<Rightarrow> k)
              ((case offset params of None \<Rightarrow> 0 | Some k \<Rightarrow> k)
               + (case limit params of None \<Rightarrow> 100 | Some l \<Rightarrow> l))"
  using assms
  by (auto simp add: fetchBiblicalPlaces_def Let_def
      split: http_response.splits sum.splits option.splits if_splits)

text \<open>
  C5. For every fetch with a place-type or a confidence-level filter, whatever the cache
  holds, the request is issued, the result is the one a fetch without a cache gives, and
  the cache is left as it was. Conversely a fetch that changes the cache, or that issues
  no request, is one without filters. A place type is given when it is a non-empty
  string, as the code tests it.
\<close>

theorem filtered_fetch_bypasses_cache:
  "(truthy (placeType params) \<or> confidenceLevel params \<noteq> None \<longrightarrow>
      snd (snd (fetchBiblicalPlaces env fetch now now' params placesCache)) =
        [documents_request env] \<and>
      fst (snd (fetchBiblicalPlaces env fetch now now' params placesCache)) = placesCache \<and>
      fst (fetchBiblicalPlaces env fetch now now' params placesCache) =
        fst (fetchBiblicalPlaces env fetch now now' params None)) \<and>
   (fst (snd (fetchBiblicalPlaces env fetch now now' params placesCache)) \<noteq> placesCache \<longrightarrow>
      no_filters params) \<and>
   (snd (snd (fetchBiblicalPlaces env fetch now now' params placesCache)) = [] \<longrightarrow>
      no_filters params \<and> placesCache_get placesCache now \<noteq> None)"
proof -
  have a: "truthy (placeType params) \<or> confidenceLevel params \<noteq> None \<longrightarrow>
      snd (snd (fetchBiblicalPlaces env fetch now now' params placesCache)) =
        [documents_request env] \<and>
      fst (snd (fetchBiblicalPlaces env fetch now now' params placesCache)) = placesCache \<and>
      fst (fetchBiblicalPlaces env fetch now now' params placesCache) =
        fst (fetchBiblicalPlaces env fetch now now' params None)"
  proof
    assume "truthy (placeType params) \<or> confidenceLevel params \<noteq> None"
    then have nf: "\<not> no_filters params"
      by (auto simp: no_filters_def)
    from fetch_with_filter [OF nf] fetch_ignores_cache_with_filter [OF nf]
    show "snd (snd (fetchBiblicalPlaces env fetch now now' params placesCache)) =
        [documents_request env] \<and>
      fst (snd (fetchBiblicalPlaces env fetch now now' params placesCache)) = placesCache \<and>
      fst (fetchBiblicalPlaces env fetch now now' params placesCache) =
        fst (fetchBiblicalPlaces env fetch now now' params None)"
      by simp
  qed
  have b: "fst (snd (fetchBiblicalPlaces env fetch now now' params placesCache)) \<noteq> placesCache \<longrightarrow>
      no_filters params"
  proof (cases "no_filters params")
    case True
    then show ?thesis by simp
  next
    case False
    from fetch_with_filter [OF False, of env fetch now now' placesCache] show ?thesis
      by simp
  qed
  have c: "snd (snd (fetchBiblicalPlaces env fetch now now' params placesCache)) = [] \<longrightarrow>
      no_filters params \<and> placesCache_get placesCache now \<noteq> None"
    by (simp add: fetchBiblicalPlaces_def Let_def
        split: http_response.splits sum.splits option.splits)
  from a b c show ?thesis by blast
qed

text \<open>The unfiltered fetch on a cold cache, against the collaborator that lists Mount Sinai.\<close>

lemma fetch_sinai_cold:
  "fetchBiblicalPlaces None fetch_sinai 0 5 all_places None =
     (Inr \<lparr>places = [transformDocumentToPlace sinai], total = 1\<rparr>,
      placesCache_set 5 [transformDocumentToPlace sinai], [documents_request None])"
  by (simp add: fetchBiblicalPlaces_def fetch_sinai_def all_places_def no_filters_def truthy_def
      placesCache_get_def is_geography_def sinai_def empty_metadata_def slice_def Let_def)

text \<open>
  The theorem at the fetch of the mountains over a warm cache, at the unfiltered fetch
  on a cold cache, which writes it, and at the unfiltered fetch over a warm cache,
  which issues no request.
\<close>

theorem filtered_fetch_bypasses_cache_witness:
  "truthy (placeType mountains) \<and>
   placesCache_get (placesCache_set 0 []) 1000 = Some [] \<and>
   snd (snd (fetchBiblicalPlaces None fetch_sinai 1000 1000 mountains (placesCache_set 0 []))) =
     [documents_request None] \<and>
   fst (snd (fetchBiblicalPlaces None fetch_sinai 1000 1000 mountains (placesCache_set 0 []))) =
     placesCache_set 0 [] \<and>
   fst (fetchBiblicalPlaces None fetch_sinai 1000 1000 mountains (placesCache_set 0 [])) =
     fst (fetchBiblicalPlaces None fetch_sinai 1000 1000 mountains None) \<and>
   fst (snd (fetchBiblicalPlaces None fetch_sinai 0 5 all_places None)) \<noteq> None \<and>
   snd (snd (fetchBiblicalPlaces None fetch_sinai 1000 1000 all_places (placesCache_set 0 []))) = [] \<and>
   no_filters all_places"
proof -
  have given: "truthy (placeType mountains)"
    by (simp add: mountains_def all_places_def truthy_def js_simps)
  have warm: "placesCache_get (placesCache_set 0 []) 1000 = Some []"
    by (simp add: placesCache_get_def placesCache_set_def CACHE_TTL_geography_def)
  have written: "fst (snd (fetchBiblicalPlaces None fetch_sinai 0 5 all_places None)) \<noteq> None"
    by (simp add: fetch_sinai_cold placesCache_set_def)
  have served:
    "snd (snd (fetchBiblicalPlaces None fetch_sinai 1000 1000 all_places (placesCache_set 0 []))) = []"
    using warm
    by (simp add: fetchBiblicalPlaces_def all_places_def no_filters_def truthy_def Let_def)
  from filtered_fetch_bypasses_cache [of mountains None fetch_sinai 1000 1000 "placesCache_set 0 []"]
    filtered_fetch_bypasses_cache [of all_places None fetch_sinai 0 5 None]
    filtered_fetch_bypasses_cache [of all_places None fetch_sinai 1000 1000 "placesCache_set 0 []"]
    given warm written served
  show ?thesis by blast
qed

text \<open>
  On a cold cache the parameters count through the offset and the limit alone: the
  request is the plain \<open>GET\<close> of the document listing, and the result is the same
  for any two parameter records that agree on those two.
\<close>

lemma fetch_cold_request:
  "snd (snd (fetchBiblicalPlaces env fetch now now' params None)) = [documents_request env]"
  by (simp add: fetchBiblicalPlaces_def placesCache_get_def Let_def
      split: http_response.splits sum.splits option.splits)

lemma fetch_cold_result:
  assumes "limit params = limit params'" and "offset params = offset params'"
  shows "fst (fetchBiblicalPlaces env fetch now now' params None) =
         fst (fetchBiblicalPlaces env fetch now now' params' None)"
  using assms
  by (simp add: fetchBiblicalPlaces_def placesCache_get_def Let_def
      split: http_response.splits sum.splits option.splits)

lemma getPlacesByType_cold:
  "fst (getPlacesByType env fetch now now' pt count None) =
     (case fst (fetchBiblicalPlaces env fetch now now'
                  \<lparr>p_query = None, placeType = None, confidenceLevel = None,
                   limit = Some (case count of None \<Rightarrow> 50 | Some l \<Rightarrow> l), offset = None\<rparr>
                  None) of
        Inl e \<Rightarrow> Inl e
      | Inr response \<Rightarrow> Inr (places response))"
proof -
  let ?typed = "\<lparr>p_query = None, placeType = Some pt, confidenceLevel = None,
                 limit = Some (case count of None \<Rightarrow> 50 | Some l \<Rightarrow> l), offset = None\<rparr>"
  let ?plain = "\<lparr>p_query = None, placeType = None, confidenceLevel = None,
                 limit = Some (case count of None \<Rightarrow> 50 | Some l \<Rightarrow> l), offset = None\<rparr>"
  have "fst (fetchBiblicalPlaces env fetch now now' ?typed None) =
        fst (fetchBiblicalPlaces env fetch now now' ?plain None)"
    by (rule fetch_cold_result) simp_all
  then show ?thesis
    by (cases "fetchBiblicalPlaces env fetch now now' ?typed None")
       (auto simp: getPlacesByType_def split: sum.splits)
qed

text \<open>
  C6. Two fetches on a cold cache, against the same collaborator, that differ in
  nothing but the place type and the confidence level issue the same request, the
  plain \<open>GET\<close> of the document listing that carries neither filter, and return the
  same result. When the collaborator answers with documents, the places returned are
  the window, by offset and limit, of all its documents of the geography domain: none
  is dropped for its place type or its confidence level. So \<open>getPlacesByType\<close>
  returns the same places for every place type.
\<close>

theorem filters_not_transmitted:
  "snd (snd (fetchBiblicalPlaces env fetch now now'
               (params\<lparr>placeType := pt, confidenceLevel := cl\<rparr>) None)) =
     [documents_request env] \<and>
   snd (snd (fetchBiblicalPlaces env fetch now now' params None)) = [documents_request env] \<and>
   fst (fetchBiblicalPlaces env fetch now now'
          (params\<lparr>placeType := pt, confidenceLevel := cl\<rparr>) None) =
     fst (fetchBiblicalPlaces env fetch now now' params None) \<and>
   (fetch (documents_request env) =
      Response 200 (Inr \<lparr>documents = Some docs, body_total = t\<rparr>) \<longrightarrow>
    (\<exists>n. fst (fetchBiblicalPlaces env fetch now now'
                 (params\<lparr>placeType := pt, confidenceLevel := cl\<rparr>) None) =
       Inr \<lparr>places =
              slice (map transformDocumentToPlace (filter is_geography docs))
                (case offset params of None \<Rightarrow> 0 | Some k \<Rightarrow> k)
                ((case offset params of None \<Rightarrow> 0 | Some k \<Rightarrow> k)
                 + (case limit params of None \<Rightarrow> 100 | Some l \<Rightarrow> l)),
            total = n\<rparr>)) \<and>
   fst (getPlacesByType env fetch now now' type1 count None) =
     fst (getPlacesByType env fetch now now' type2 count None)"
proof -
  have b: "fst (fetchBiblicalPlaces env fetch now now'
          (params\<lparr>placeType := pt, confidenceLevel := cl\<rparr>) None) =
     fst (fetchBiblicalPlaces env fetch now now' params None)"
    by (rule fetch_cold_result) simp_all
  have c: "fetch (documents_request env) =
      Response 200 (Inr \<lparr>documents = Some docs, body_total = t\<rparr>) \<longrightarrow>
    (\<exists>n. fst (fetchBiblicalPlaces env fetch now now'
                 (params\<lparr>placeType := pt, confidenceLevel := cl\<rparr>) None) =
       Inr \<lparr>places =
              slice (map transformDocumentToPlace (filter is_geography docs))
                (case offset params of None \<Rightarrow> 0 | Some k \<Rightarrow> k)
                ((case offset params of None \<Rightarrow> 0 | Some k \<Rightarrow> k)
                 + (case limit params of None \<Rightarrow> 100 | Some l \<Rightarrow> l)),
            total = n\<rparr>)"
    by (simp add: fetchBiblicalPlaces_def placesCache_get_def Let_def)
  have d: "fst (getPlacesByType env fetch now now' type1 count None) =
     fst (getPlacesByType env fetch now now' type2 count None)"
    by (simp add: getPlacesByType_cold)
  from fetch_cold_request b c d show ?thesis by blast
qed

text \<open>
  The theorem at a fetch of the rivers of low confidence: it returns Mount Sinai, a
  mountain of high confidence, as the unfiltered fetch does.
\<close>

theorem filters_not_transmitted_witness:
  "fetch_sinai (documents_request None) =
     Response 200 (Inr \<lparr>documents = Some [sinai], body_total = Some 1\<rparr>) \<and>
   snd (snd (fetchBiblicalPlaces None fetch_sinai 0 5
               (all_places\<lparr>placeType := Some (js ''river''), confidenceLevel := Some low\<rparr>) None)) =
     [documents_request None] \<and>
   fst (fetchBiblicalPlaces None fetch_sinai 0 5
          (all_places\<lparr>placeType := Some (js ''river''), confidenceLevel := Some low\<rparr>) None) =
     Inr \<lparr>places = [transformDocumentToPlace sinai], total = 1\<rparr> \<and>
   place_type (transformDocumentToPlace sinai) = js ''mountain'' \<and>
   confidence_level (transformDocumentToPlace sinai) = high"
proof -
  have h: "fetch_sinai (documents_request None) =
     Response 200 (Inr \<lparr>documents = Some [sinai], body_total = Some 1\<rparr>)"
    by (simp add: fetch_sinai_def)
  have p: "place_type (transformDocumentToPlace sinai) = js ''mountain''"
    "confidence_level (transformDocumentToPlace sinai) = high"
    by (simp_all add: transformDocumentToPlace_def sinai_def empty_metadata_def string_or_def
        number_or_zero_def getConfidenceLevel_def js_simps Let_def)
  from filters_not_transmitted [where env = None and fetch = fetch_sinai and now = 0
      and now' = 5 and params = all_places and pt = "Some (js ''river'')" and cl = "Some low"
      and docs = "[sinai]" and t = "Some 1"] h p
  show ?thesis by (simp add: fetch_sinai_cold)
qed



section \<open>Which lookups the caches serve\<close>

text \<open>
  A Hebrew lookup repeated within the TTL of the first one's write returns the first
  one's payload and calls no provider; so does an unfiltered fetch of the places.
\<close>

lemma getHebrewText_repeated:
  assumes "verseCache_get cache t1 (js ''hebrew:'' @ verse_key b c v) = None"
    and "t2 - t1' < CACHE_TTL_sword"
  shows "getHebrewText fetch t2 t2' b c v
           (fst (snd (getHebrewText fetch t1 t1' b c v cache))) =
         (fst (getHebrewText fetch t1 t1' b c v cache),
          fst (snd (getHebrewText fetch t1 t1' b c v cache)), [])"
  using assms
  by (simp add: getHebrewText_def USE_MOCK_DATA_def verseCache_get_def verseCache_set_def Let_def)

lemma fetchBiblicalPlaces_repeated:
  assumes "no_filters params"
    and "fetchBiblicalPlaces env fetch t1 t1' params None = (Inr response, cache, requests)"
    and "t2 - t1' < CACHE_TTL_geography"
  shows "snd (fetchBiblicalPlaces env fetch t2 t2' params cache) = (cache, []) \<and>
         (\<exists>r. fst (fetchBiblicalPlaces env fetch t2 t2' params cache) = Inr r \<and>
              places r = places response)"
  using assms
  by (auto simp add: fetchBiblicalPlaces_def Let_def placesCache_get_def placesCache_set_def
      split: http_response.splits sum.splits option.splits if_splits)

text \<open>
  C7, on the code. A Greek lookup of John 1:1 and an interlinear lookup of Genesis 1:1,
  each repeated one second after the first, call the provider again and leave the cache
  empty: neither path reads or writes \<open>verseCache\<close>. The Hebrew lookup of Genesis 1:1
  repeated in the same way is served from the cache with no provider call.
\<close>

theorem greek_and_interlinear_not_cached:
  "getGreekText fetch_unreachable 1000 1000 (js ''John'') 1 1
     (fst (snd (getGreekText fetch_unreachable 0 0 (js ''John'') 1 1 Map.empty))) =
     (Some (getMockGreekText (js ''John'') 1 1), Map.empty, [MockGreekText (js ''John'') 1 1]) \<and>
   getInterlinear fetch_unreachable 1000 1000 (js ''Genesis'') 1 1
     (fst (snd (getInterlinear fetch_unreachable 0 0 (js ''Genesis'') 1 1 Map.empty))) =
     (Some (getMockInterlinear (js ''Genesis'') 1 1), Map.empty,
      [MockInterlinear (js ''Genesis'') 1 1]) \<and>
   getHebrewText fetch_unreachable 1000 1000 (js ''Genesis'') 1 1
     (fst (snd (getHebrewText fetch_unreachable 0 0 (js ''Genesis'') 1 1 Map.empty))) =
     (Some (getMockHebrewText (js ''Genesis'') 1 1),
      verseCache_set Map.empty 0 (js ''hebrew:'' @ verse_key (js ''Genesis'') 1 1)
        (getMockHebrewText (js ''Genesis'') 1 1), [])"
  by (simp add: getGreekText_def getInterlinear_def getHebrewText_def USE_MOCK_DATA_def
      verseCache_get_def verseCache_set_def CACHE_TTL_sword_def Let_def)



section \<open>The text export\<close>

lemma join_append:
  "xs \<noteq> [] \<Longrightarrow> ys \<noteq> [] \<Longrightarrow> join sep (xs @ ys) = join sep xs @ sep @ join sep ys"
proof (induction sep xs rule: join.induct)
  case (1 sep)
  then show ?case by simp
next
  case (2 sep x)
  then show ?case by (cases ys) simp_all
next
  case (3 sep x y ys')
  then show ?case by simp
qed

lemma digits_1: "digits (Suc 0) = js ''1''"
  by (simp add: digits.simps digit_def js_simps)

lemma digits_87: "digits 87 = js ''87''"
  by (simp add: digits.simps digit_def js_simps)

lemma toFixed0_87: "toFixed0 87 = js ''87''"
  by (simp add: toFixed0_def digits_87)

lemma upper_kjv: "toUpperCase (js ''kjv'') = js ''KJV''"
  by (simp add: toUpperCase_def upper_unit_def js_simps)

lemma psalm_lines:
  "result_lines 0 psalm =
     [js ''1. Psalms 23:1 (KJV)'', js ''   Similarity: 87%'',
      js ''   The LORD is my shepherd...'', []]"
  by (simp add: result_lines_def psalm_def digits_1 percent_087 toFixed0_87 upper_kjv)
     (simp add: js_simps)

lemma shepherd_lines:
  "exportResults_lines shepherd date =
     ([js ''Search Query: '' @ [dquote] @ js ''shepherd'' @ [dquote],
       js ''Results: 1'',
       js ''Translations: KJV'',
       js ''Date: '' @ date,
       [],
       replicate 80 0x3D,
       []]
      @ [js ''1. Psalms 23:1 (KJV)''] @ [js ''   Similarity: 87%'']
      @ [js ''   The LORD is my shepherd...'',
         [],
         replicate 80 0x3D,
         [],
         js ''Source: Prism Religious Studies (Christianity Module)'',
         js ''Search Engine: Prism (Personal Semantic Data Layer)'',
         js ''Embedding Model: nomic-embed-text (768 dimensions)''])"
  unfolding exportResults_lines_def
  by (simp add: shepherd_def initial_def psalm_lines digits_1 upper_kjv)
     (simp add: js_simps)

lemma shepherd_filename:
  "export_filename (searchQuery shepherd) now (js ''.txt'') =
     js ''search_shepherd_'' @ int_toString now @ js ''.txt''"
  by (simp add: export_filename_def shepherd_def initial_def js_simps isWhiteSpace_def)

text \<open>
  C9. For the single result Psalms 23:1 in the translation \<open>kjv\<close> with similarity 0.87
  and the text \<open>The LORD is my shepherd...\<close>, the query \<open>shepherd\<close> and the
  translations \<open>[kjv]\<close>, on any date and at any clock reading, \<open>exportResults\<close>
  produces a file named with the extension \<open>.txt\<close> whose body has the line
  \<open>1. Psalms 23:1 (KJV)\<close>, followed by the line that holds \<open>Similarity: 87%\<close>.
\<close>

theorem exportResults_shepherd:
  "\<exists>before after.
     exportResults shepherd date now =
       Some (before @ [LF] @ js ''1. Psalms 23:1 (KJV)'' @ [LF] @ js ''   Similarity: 87%''
               @ [LF] @ after,
             js ''search_shepherd_'' @ int_toString now @ js ''.txt'')"
proof -
  let ?head = "[js ''Search Query: '' @ [dquote] @ js ''shepherd'' @ [dquote],
       js ''Results: 1'', js ''Translations: KJV'', js ''Date: '' @ date, [],
       replicate 80 0x3D, []]"
  let ?tail = "[js ''   The LORD is my shepherd...'', [], replicate 80 0x3D, [],
         js ''Source: Prism Religious Studies (Christianity Module)'',
         js ''Search Engine: Prism (Personal Semantic Data Layer)'',
         js ''Embedding Model: nomic-embed-text (768 dimensions)'']"
  have "join [LF] (exportResults_lines shepherd date) =
          join [LF] ?head @ [LF] @ js ''1. Psalms 23:1 (KJV)'' @ [LF] @ js ''   Similarity: 87%''
            @ [LF] @ join [LF] ?tail"
    unfolding shepherd_lines
    by (subst join_append, simp, simp)+ simp
  moreover have "length (searchResults shepherd) \<noteq> 0"
    by (simp add: shepherd_def)
  ultimately have "exportResults shepherd date now =
       Some (join [LF] ?head @ [LF] @ js ''1. Psalms 23:1 (KJV)'' @ [LF]
               @ js ''   Similarity: 87%'' @ [LF] @ join [LF] ?tail,
             js ''search_shepherd_'' @ int_toString now @ js ''.txt'')"
    by (simp add: exportResults_def shepherd_filename)
  then show ?thesis by blast
qed

text \<open>
  The similarity is the double nearest to 0.87, and its rounded product with 100 is the
  double 87. Every number within half a percent of 87 is printed the same.
\<close>

lemma toFixed0_near_87:
  assumes "87 - 1 / 2 \<le> x" and "x < 87 + 1 / 2"
  shows "toFixed0 x = js ''87''"
proof -
  have "\<lfloor>x + 1 / 2\<rfloor> = 87"
    using assms by (intro floor_unique) simp_all
  moreover have "\<not> x < 0"
    using assms by simp
  ultimately show ?thesis
    by (simp add: toFixed0_def digits_87)
qed




section \<open>The CSV export\<close>

text \<open>How the parser reads a field that is written as it is, and a quoted one.\<close>

lemma csv_units_distinct [simp]:
  "comma \<noteq> dquote" "comma \<noteq> LF" "comma \<noteq> CR" "dquote \<noteq> comma" "dquote \<noteq> LF"
  "dquote \<noteq> CR" "LF \<noteq> comma" "LF \<noteq> dquote" "LF \<noteq> CR" "CR \<noteq> LF"
  by (simp_all add: comma_def dquote_def LF_def CR_def)
























text \<open>
  The translation is recovered up to its case: upper-casing keeps the five identifiers
  apart.
\<close>

lemma upper_translation_inj:
  "toUpperCase (translation_id t) = toUpperCase (translation_id t') \<longleftrightarrow> t = t'"
  by (cases t; cases t')
     (simp_all add: toUpperCase_def upper_unit_def js_simps)

text \<open>
  A comma in a reference is written without quotes and splits the field: the record has
  eight fields, the first of them the reference up to its comma.
\<close>

lemma unquoted_reference_splits:
  "length (parseCSV (csvContent [psalm\<lparr>verse_ref := js ''Psalms 23:1,2''\<rparr>]) ! 1) = 8 \<and>
   parseCSV (csvContent [psalm\<lparr>verse_ref := js ''Psalms 23:1,2''\<rparr>]) ! 1 ! 0 = js ''Psalms 23:1''"
  by (simp add: parseCSV_def csvContent_def csv_headers_def csv_row_def psalm_def js_simps
      comma_def dquote_def LF_def CR_def escape_quotes_def int_toString_def percent_087
      toFixed0_87 toUpperCase_def upper_unit_def digits_1 digits.simps [of 23]
      digits.simps [of 2] digit_def)

end
